theory Spec2Isabelle
  imports Main "HOL-Library.AList"
begin

section \<open>JavaScript values\<close>

text \<open>
  The session objects passed between the manager, the coordinator and the two adapters
  are plain JavaScript objects. A property is modelled by the value it holds, with
  \<open>JUndefined\<close> for a property that is absent. Dates are always truthy.
\<close>

datatype jsval = JUndefined | JNull | JBool bool | JNum int | JStr string | JDate nat

fun truthy :: "jsval \<Rightarrow> bool" where
  "truthy JUndefined = False"
| "truthy JNull = False"
| "truthy (JBool b) = b"
| "truthy (JNum n) = (n \<noteq> 0)"
| "truthy (JStr s) = (s \<noteq> [])"
| "truthy (JDate t) = True"

text \<open>\<^verbatim>\<open>a || b\<close>\<close>

definition js_or :: "jsval \<Rightarrow> jsval \<Rightarrow> jsval" where
  "js_or a b = (if truthy a then a else b)"

text \<open>\<^verbatim>\<open>x !== false\<close>\<close>

definition not_false :: "jsval \<Rightarrow> bool" where
  "not_false v = (v \<noteq> JBool False)"

text \<open>
  \<^verbatim>\<open>parseInt\<close> with no radix argument: leading white space is skipped, then an optional
  sign, then the prefix \<^verbatim>\<open>0x\<close> or \<^verbatim>\<open>0X\<close> selects base 16, then the longest prefix of
  digits of the base is read; no digit gives NaN. The value is a double: above
  \<open>2 ^ 53\<close> it is rounded to 53 significant bits (ties to even), and it is infinite from
  \<open>2 ^ 1024\<close> on. \<open>None\<close> stands for a result that is not a finite number. Characters
  are bytes, so the white space beyond ASCII is not covered.
\<close>

definition is_space :: "char \<Rightarrow> bool" where
  "is_space c = (c \<in> set [CHR 0x20, CHR 0x09, CHR 0x0A, CHR 0x0B, CHR 0x0C, CHR 0x0D])"

definition digit_val :: "char \<Rightarrow> nat option" where
  "digit_val c = map_of (zip ''0123456789'' [0, 1, 2, 3, 4, 5, 6, 7, 8, 9]) c"

definition hex_val :: "char \<Rightarrow> nat option" where
  "hex_val c = map_of (zip ''0123456789abcdefABCDEF''
                 [0, 1, 2, 3, 4, 5, 6, 7, 8, 9, 10, 11, 12, 13, 14, 15, 10, 11, 12, 13, 14, 15]) c"

definition parse_digits :: "nat \<Rightarrow> (char \<Rightarrow> nat option) \<Rightarrow> string \<Rightarrow> nat option" where
  "parse_digits radix dv s =
     (let ds = takeWhile (\<lambda>c. dv c \<noteq> None) s
      in if ds = [] then None
         else Some (foldl (\<lambda>acc c. radix * acc + the (dv c)) 0 ds))"

fun bit_length :: "nat \<Rightarrow> nat" where
  "bit_length n = (if n = 0 then 0 else Suc (bit_length (n div 2)))"

definition to_double :: "nat \<Rightarrow> nat option" where
  "to_double n =
     (if n < 2 ^ 53 then Some n
      else
        let e = bit_length n - 53;
            q = n div 2 ^ e;
            r = n mod 2 ^ e;
            half = 2 ^ (e - 1);
            q' = (if half < r \<or> (r = half \<and> odd q) then q + 1 else q);
            v = q' * 2 ^ e
        in if v < 2 ^ 1024 then Some v else None)"

definition parseInt_str :: "string \<Rightarrow> int option" where
  "parseInt_str s =
     (let s1 = dropWhile is_space s;
          negative = (take 1 s1 = ''-'');
          s2 = (if take 1 s1 = ''-'' \<or> take 1 s1 = ''+'' then drop 1 s1 else s1);
          digits = (if take 2 s2 = ''0x'' \<or> take 2 s2 = ''0X''
                    then parse_digits 16 hex_val (drop 2 s2)
                    else parse_digits 10 digit_val s2)
      in case digits of
           None \<Rightarrow> None
         | Some n \<Rightarrow>
             (case to_double n of
                None \<Rightarrow> None
              | Some v \<Rightarrow> Some (if negative then - int v else int v)))"

text \<open>
  A number is converted to a string first: an integer below \<open>10 ^ 21\<close> in magnitude
  prints its digits, a larger one prints in exponent notation, of which \<^verbatim>\<open>parseInt\<close>
  reads the leading digit. Booleans, null, undefined and dates print no leading digit.
\<close>

fun leading_digit :: "nat \<Rightarrow> nat" where
  "leading_digit n = (if n < 10 then n else leading_digit (n div 10))"

fun parseInt :: "jsval \<Rightarrow> int option" where
  "parseInt (JNum n) =
     (if \<bar>n\<bar> < 10 ^ 21 then Some n
      else Some (if n < 0 then - int (leading_digit (nat \<bar>n\<bar>)) else int (leading_digit (nat n))))"
| "parseInt (JStr s) = parseInt_str s"
| "parseInt _ = None"

section \<open>Session objects\<close>

text \<open>The object literal carried by save, update and get; every property is a value.\<close>

record session_data =
  sd_sessionId :: jsval
  sd_userId :: jsval
  sd_telegramId :: jsval
  sd_phoneNumber :: jsval
  sd_isConnected :: jsval
  sd_connectionStatus :: jsval
  sd_reconnectAttempts :: jsval
  sd_source :: jsval
  sd_detected :: jsval
  sd_createdAt :: jsval
  sd_updatedAt :: jsval

definition no_fields :: session_data where
  "no_fields = \<lparr> sd_sessionId = JUndefined, sd_userId = JUndefined, sd_telegramId = JUndefined,
     sd_phoneNumber = JUndefined, sd_isConnected = JUndefined, sd_connectionStatus = JUndefined,
     sd_reconnectAttempts = JUndefined, sd_source = JUndefined, sd_detected = JUndefined,
     sd_createdAt = JUndefined, sd_updatedAt = JUndefined \<rparr>"

section \<open>MongoDB adapter (MongoDBStorage)\<close>

record mongo_doc =
  d_sessionId :: string
  d_telegramId :: jsval
  d_phoneNumber :: jsval
  d_isConnected :: jsval
  d_connectionStatus :: jsval
  d_reconnectAttempts :: jsval
  d_source :: jsval
  d_detected :: jsval
  d_createdAt :: jsval
  d_updatedAt :: nat

record auth_doc =
  a_sessionId :: string
  a_filename :: string
  a_datajson :: string
  a_updatedAt :: nat

text \<open>
  \<open>m_throws\<close> stands for the driver raising inside an operation (lost connection, time
  out); every adapter method catches it and fails soft.
\<close>

record mongo =
  m_isConnected :: bool
  m_authBaileys :: "auth_doc list option"
  m_sessions :: "mongo_doc list"
  m_throws :: bool

text \<open>\<^verbatim>\<open>replaceOne({ sessionId }, document, { upsert: true })\<close>\<close>

fun replaceOne :: "string \<Rightarrow> mongo_doc \<Rightarrow> mongo_doc list \<Rightarrow> mongo_doc list" where
  "replaceOne sid d [] = [d]"
| "replaceOne sid d (x # xs) =
     (if d_sessionId x = sid then d # xs else x # replaceOne sid d xs)"

text \<open>A document field: the driver stores an undefined value as null.\<close>

definition bson :: "jsval \<Rightarrow> jsval" where
  "bson v = (if v = JUndefined then JNull else v)"

definition mongo_saveSession ::
  "nat \<Rightarrow> mongo \<Rightarrow> string \<Rightarrow> session_data \<Rightarrow> bool \<times> mongo" where
  "mongo_saveSession now m sid sessionData =
     (if \<not> m_isConnected m then (False, m)
      else if m_throws m then (False, m)
      else
        let document = \<lparr>
              d_sessionId = sid,
              d_telegramId = bson (js_or (sd_telegramId sessionData) (sd_userId sessionData)),
              d_phoneNumber = bson (sd_phoneNumber sessionData),
              d_isConnected = (if sd_isConnected sessionData \<noteq> JUndefined
                               then sd_isConnected sessionData else JBool False),
              d_connectionStatus = js_or (sd_connectionStatus sessionData) (JStr ''disconnected''),
              d_reconnectAttempts = js_or (sd_reconnectAttempts sessionData) (JNum 0),
              d_source = js_or (sd_source sessionData) (JStr ''web''),
              d_detected = JBool (not_false (sd_detected sessionData)),
              d_createdAt = js_or (sd_createdAt sessionData) (JDate now),
              d_updatedAt = now \<rparr>
        in (True, m\<lparr>m_sessions := replaceOne sid document (m_sessions m)\<rparr>))"

text \<open>The object both \<^verbatim>\<open>getSession\<close> and \<^verbatim>\<open>getAllSessions\<close> build from a document.\<close>

definition mongo_view :: "mongo_doc \<Rightarrow> session_data" where
  "mongo_view session = \<lparr>
     sd_sessionId = JStr (d_sessionId session),
     sd_userId = d_telegramId session,
     sd_telegramId = d_telegramId session,
     sd_phoneNumber = d_phoneNumber session,
     sd_isConnected = d_isConnected session,
     sd_connectionStatus = d_connectionStatus session,
     sd_reconnectAttempts = d_reconnectAttempts session,
     sd_source = js_or (d_source session) (JStr ''web''),
     sd_detected = JBool (not_false (d_detected session)),
     sd_createdAt = d_createdAt session,
     sd_updatedAt = JDate (d_updatedAt session) \<rparr>"

definition mongo_getSession :: "mongo \<Rightarrow> string \<Rightarrow> session_data option" where
  "mongo_getSession m sid =
     (if \<not> m_isConnected m then None
      else if m_throws m then None
      else map_option mongo_view (find (\<lambda>d. d_sessionId d = sid) (m_sessions m)))"

text \<open>
  \<^verbatim>\<open>$set\<close> of \<^verbatim>\<open>updatedAt\<close> and of every allowed field that is not undefined in the
  updates.
\<close>

definition set_fields :: "nat \<Rightarrow> session_data \<Rightarrow> mongo_doc \<Rightarrow> mongo_doc" where
  "set_fields now updates d = d\<lparr>
     d_updatedAt := now,
     d_isConnected := (if sd_isConnected updates \<noteq> JUndefined
                       then sd_isConnected updates else d_isConnected d),
     d_connectionStatus := (if sd_connectionStatus updates \<noteq> JUndefined
                            then sd_connectionStatus updates else d_connectionStatus d),
     d_phoneNumber := (if sd_phoneNumber updates \<noteq> JUndefined
                       then sd_phoneNumber updates else d_phoneNumber d),
     d_reconnectAttempts := (if sd_reconnectAttempts updates \<noteq> JUndefined
                             then sd_reconnectAttempts updates else d_reconnectAttempts d),
     d_source := (if sd_source updates \<noteq> JUndefined
                  then sd_source updates else d_source d),
     d_detected := (if sd_detected updates \<noteq> JUndefined
                    then sd_detected updates else d_detected d) \<rparr>"

text \<open>\<^verbatim>\<open>updateOne({ sessionId }, { $set: updateDoc })\<close>: the first match only.\<close>

fun updateOne :: "string \<Rightarrow> (mongo_doc \<Rightarrow> mongo_doc) \<Rightarrow> mongo_doc list \<Rightarrow> mongo_doc list" where
  "updateOne sid f [] = []"
| "updateOne sid f (x # xs) =
     (if d_sessionId x = sid then f x # xs else x # updateOne sid f xs)"

definition mongo_updateSession ::
  "nat \<Rightarrow> mongo \<Rightarrow> string \<Rightarrow> session_data \<Rightarrow> bool \<times> mongo" where
  "mongo_updateSession now m sid updates =
     (if \<not> m_isConnected m then (False, m)
      else if m_throws m then (False, m)
      else (\<exists>d \<in> set (m_sessions m). d_sessionId d = sid,
            m\<lparr>m_sessions := updateOne sid (set_fields now updates) (m_sessions m)\<rparr>))"

text \<open>\<^verbatim>\<open>deleteOne({ sessionId })\<close>\<close>

fun deleteOne :: "string \<Rightarrow> mongo_doc list \<Rightarrow> mongo_doc list" where
  "deleteOne sid [] = []"
| "deleteOne sid (x # xs) = (if d_sessionId x = sid then xs else x # deleteOne sid xs)"

definition mongo_deleteSession :: "mongo \<Rightarrow> string \<Rightarrow> bool \<times> mongo" where
  "mongo_deleteSession m sid =
     (if \<not> m_isConnected m then (False, m)
      else if m_throws m then (False, m)
      else (\<exists>d \<in> set (m_sessions m). d_sessionId d = sid,
            m\<lparr>m_sessions := deleteOne sid (m_sessions m)\<rparr>))"

text \<open>\<^verbatim>\<open>authBaileys.deleteMany({ sessionId })\<close>\<close>

definition deleteAuthState :: "mongo \<Rightarrow> string \<Rightarrow> bool \<times> mongo" where
  "deleteAuthState m sid =
     (case m_authBaileys m of
        None \<Rightarrow> (False, m)
      | Some docs \<Rightarrow>
          if \<not> m_isConnected m then (False, m)
          else if m_throws m then (False, m)
          else (\<exists>a \<in> set docs. a_sessionId a = sid,
                m\<lparr>m_authBaileys := Some (filter (\<lambda>a. a_sessionId a \<noteq> sid) docs)\<rparr>))"

text \<open>
  The flat key of a credential file:
  \<^verbatim>\<open>fileName.replace(/::/g, "__").replace(/:/g, "-").replace(/\//g, "_").replace(/\\/g, "_")\<close>.
  The first replacement scans left to right over non-overlapping matches.
\<close>

fun replace_colons :: "string \<Rightarrow> string" where
  "replace_colons (c # d # cs) =
     (if c = CHR '':'' \<and> d = CHR '':'' then CHR ''_'' # CHR ''_'' # replace_colons cs
      else c # replace_colons (d # cs))"
| "replace_colons cs = cs"

definition replace_char :: "char \<Rightarrow> char \<Rightarrow> string \<Rightarrow> string" where
  "replace_char a b s = map (\<lambda>c. if c = a then b else c) s"

definition sanitize :: "string \<Rightarrow> string" where
  "sanitize fileName =
     replace_char (CHR 0x5C) (CHR ''_'')
       (replace_char (CHR ''/'') (CHR ''_'')
         (replace_char (CHR '':'') (CHR ''-'')
           (replace_colons fileName)))"

definition readAuthData :: "mongo \<Rightarrow> string \<Rightarrow> string \<Rightarrow> string option" where
  "readAuthData m sid fileName =
     (case m_authBaileys m of
        None \<Rightarrow> None
      | Some docs \<Rightarrow>
          if \<not> m_isConnected m then None
          else if m_throws m then None
          else (case find (\<lambda>a. a_sessionId a = sid \<and> a_filename a = sanitize fileName) docs of
                  None \<Rightarrow> None
                | Some result \<Rightarrow> if a_datajson result \<noteq> [] then Some (a_datajson result) else None))"

text \<open>\<^verbatim>\<open>updateOne(filter, { $set: ... }, { upsert: true })\<close> on the credential collection.\<close>

fun upsert_auth :: "auth_doc \<Rightarrow> auth_doc list \<Rightarrow> auth_doc list" where
  "upsert_auth d [] = [d]"
| "upsert_auth d (x # xs) =
     (if a_sessionId x = a_sessionId d \<and> a_filename x = a_filename d then d # xs
      else x # upsert_auth d xs)"

definition writeAuthData :: "nat \<Rightarrow> mongo \<Rightarrow> string \<Rightarrow> string \<Rightarrow> string \<Rightarrow> bool \<times> mongo" where
  "writeAuthData now m sid fileName payload =
     (case m_authBaileys m of
        None \<Rightarrow> (False, m)
      | Some docs \<Rightarrow>
          if \<not> m_isConnected m then (False, m)
          else if m_throws m then (False, m)
          else (True,
                m\<lparr>m_authBaileys := Some (upsert_auth
                    \<lparr>a_sessionId = sid, a_filename = sanitize fileName,
                      a_datajson = payload, a_updatedAt = now\<rparr> docs)\<rparr>))"

definition getAllAuthFiles :: "mongo \<Rightarrow> string \<Rightarrow> string list" where
  "getAllAuthFiles m sid =
     (case m_authBaileys m of
        None \<Rightarrow> []
      | Some docs \<Rightarrow>
          if \<not> m_isConnected m then []
          else if m_throws m then []
          else map a_filename (filter (\<lambda>a. a_sessionId a = sid) docs))"

text \<open>\<^verbatim>\<open>find({}).sort({ updatedAt: -1 })\<close>: most recently updated first.\<close>

definition mongo_getAllSessions :: "mongo \<Rightarrow> session_data list" where
  "mongo_getAllSessions m =
     (if \<not> m_isConnected m then []
      else if m_throws m then []
      else map mongo_view (sort_key (\<lambda>d. - int (d_updatedAt d)) (m_sessions m)))"

section \<open>PostgreSQL adapter (PostgreSQLStorage)\<close>

text \<open>
  A row of the \<^verbatim>\<open>users\<close> table. \<^verbatim>\<open>telegram_id\<close> is the conflict key of the upsert;
  \<^verbatim>\<open>session_id\<close> may be NULL. The columns the adapter reads back through JavaScript
  are kept as values, NULL being \<open>JNull\<close>.
\<close>

record pg_row =
  r_telegram_id :: int
  r_session_id :: "string option"
  r_phone_number :: jsval
  r_is_connected :: jsval
  r_connection_status :: jsval
  r_reconnect_attempts :: jsval
  r_source :: jsval
  r_detected :: jsval
  r_created_at :: nat
  r_updated_at :: nat

record postgres =
  p_isConnected :: bool
  p_users :: "pg_row list"
  p_throws :: bool

text \<open>A query parameter: undefined and null are sent as NULL.\<close>

definition sql_param :: "jsval \<Rightarrow> jsval" where
  "sql_param v = (if v = JUndefined then JNull else v)"

text \<open>\<^verbatim>\<open>COALESCE(EXCLUDED.phone_number, users.phone_number)\<close>\<close>

definition coalesce :: "jsval \<Rightarrow> jsval \<Rightarrow> jsval" where
  "coalesce a b = (if a = JNull then b else a)"

fun pg_upsert :: "pg_row \<Rightarrow> pg_row list \<Rightarrow> pg_row list" where
  "pg_upsert new [] = [new]"
| "pg_upsert new (x # xs) =
     (if r_telegram_id x = r_telegram_id new
      then x\<lparr> r_session_id := r_session_id new,
               r_phone_number := coalesce (r_phone_number new) (r_phone_number x),
               r_is_connected := r_is_connected new,
               r_connection_status := r_connection_status new,
               r_reconnect_attempts := r_reconnect_attempts new,
               r_source := r_source new,
               r_detected := r_detected new,
               r_updated_at := r_updated_at new \<rparr> # xs
      else x # pg_upsert new xs)"

text \<open>
  The two \<^verbatim>\<open>parseInt\<close> parameters go to integer columns; NaN is rejected by the
  database, which the adapter reports as a failed save.
\<close>

definition pg_saveSession ::
  "nat \<Rightarrow> postgres \<Rightarrow> string \<Rightarrow> session_data \<Rightarrow> bool \<times> postgres" where
  "pg_saveSession now p sid sessionData =
     (if \<not> p_isConnected p then (False, p)
      else if p_throws p then (False, p)
      else
        case (parseInt (js_or (sd_telegramId sessionData) (sd_userId sessionData)),
              parseInt (js_or (sd_reconnectAttempts sessionData) (JNum 0))) of
          (Some tid, Some attempts) \<Rightarrow>
            (True, p\<lparr>p_users := pg_upsert \<lparr>
                r_telegram_id = tid,
                r_session_id = Some sid,
                r_phone_number = sql_param (sd_phoneNumber sessionData),
                r_is_connected = JBool (truthy (sd_isConnected sessionData)),
                r_connection_status = js_or (sd_connectionStatus sessionData) (JStr ''disconnected''),
                r_reconnect_attempts = JNum attempts,
                r_source = js_or (sd_source sessionData) (JStr ''web''),
                r_detected = JBool (not_false (sd_detected sessionData)),
                r_created_at = now,
                r_updated_at = now \<rparr> (p_users p)\<rparr>)
        | _ \<Rightarrow> (False, p))"

definition pg_view :: "pg_row \<Rightarrow> session_data" where
  "pg_view row = \<lparr>
     sd_sessionId = (case r_session_id row of None \<Rightarrow> JNull | Some s \<Rightarrow> JStr s),
     sd_userId = JNum (r_telegram_id row),
     sd_telegramId = JNum (r_telegram_id row),
     sd_phoneNumber = r_phone_number row,
     sd_isConnected = r_is_connected row,
     sd_connectionStatus = js_or (r_connection_status row) (JStr ''disconnected''),
     sd_reconnectAttempts = js_or (r_reconnect_attempts row) (JNum 0),
     sd_source = js_or (r_source row) (JStr ''web''),
     sd_detected = JBool (not_false (r_detected row)),
     sd_createdAt = JDate (r_created_at row),
     sd_updatedAt = JDate (r_updated_at row) \<rparr>"

definition pg_getSession :: "postgres \<Rightarrow> string \<Rightarrow> session_data option" where
  "pg_getSession p sid =
     (if \<not> p_isConnected p then None
      else if p_throws p then None
      else map_option pg_view (find (\<lambda>r. r_session_id r = Some sid) (p_users p)))"

text \<open>
  A value bound to an integer column: a number or NULL is taken, a string when it is an
  integer literal (optional sign and digits, white space around them allowed); anything
  else makes the query raise. The width of the column is not in the sources.
\<close>

definition int_literal :: "string \<Rightarrow> int option" where
  "int_literal s =
     (let t = rev (dropWhile is_space (rev (dropWhile is_space s)));
          negative = (take 1 t = ''-'');
          body = (if take 1 t = ''-'' \<or> take 1 t = ''+'' then drop 1 t else t)
      in if body \<noteq> [] \<and> list_all (\<lambda>c. digit_val c \<noteq> None) body
         then map_option (\<lambda>n. if negative then - int n else int n) (parse_digits 10 digit_val body)
         else None)"

definition pg_integer :: "jsval \<Rightarrow> jsval option" where
  "pg_integer v =
     (case v of
        JNum n \<Rightarrow> Some (JNum n)
      | JNull \<Rightarrow> Some JNull
      | JStr s \<Rightarrow> map_option JNum (int_literal s)
      | _ \<Rightarrow> None)"

text \<open>
  The SET list of \<^verbatim>\<open>updateSession\<close>: \<^verbatim>\<open>connectionStatus\<close> is taken when truthy, the
  other columns when not undefined; \<^verbatim>\<open>source\<close> is never updated here.
\<close>

definition pg_has_set_parts :: "session_data \<Rightarrow> bool" where
  "pg_has_set_parts updates =
     (sd_isConnected updates \<noteq> JUndefined \<or> truthy (sd_connectionStatus updates) \<or>
      sd_phoneNumber updates \<noteq> JUndefined \<or> sd_reconnectAttempts updates \<noteq> JUndefined \<or>
      sd_detected updates \<noteq> JUndefined)"

definition pg_set_parts :: "nat \<Rightarrow> session_data \<Rightarrow> pg_row \<Rightarrow> pg_row" where
  "pg_set_parts now updates r = r\<lparr>
     r_is_connected := (if sd_isConnected updates \<noteq> JUndefined
                        then JBool (truthy (sd_isConnected updates)) else r_is_connected r),
     r_connection_status := (if truthy (sd_connectionStatus updates)
                             then sd_connectionStatus updates else r_connection_status r),
     r_phone_number := (if sd_phoneNumber updates \<noteq> JUndefined
                        then sql_param (sd_phoneNumber updates) else r_phone_number r),
     r_reconnect_attempts := (if sd_reconnectAttempts updates \<noteq> JUndefined
                              then (case pg_integer (sd_reconnectAttempts updates) of
                                      Some v \<Rightarrow> v
                                    | None \<Rightarrow> r_reconnect_attempts r)
                              else r_reconnect_attempts r),
     r_detected := (if sd_detected updates \<noteq> JUndefined
                    then JBool (truthy (sd_detected updates)) else r_detected r),
     r_updated_at := now \<rparr>"

text \<open>Whether the parameters of the UPDATE are accepted by the database.\<close>

definition pg_params_ok :: "session_data \<Rightarrow> bool" where
  "pg_params_ok updates =
     (if sd_reconnectAttempts updates = JUndefined then True
      else pg_integer (sd_reconnectAttempts updates) \<noteq> None)"

definition pg_updateSession ::
  "nat \<Rightarrow> postgres \<Rightarrow> string \<Rightarrow> session_data \<Rightarrow> bool \<times> postgres" where
  "pg_updateSession now p sid updates =
     (if \<not> p_isConnected p then (False, p)
      else if p_throws p then (False, p)
      else if pg_has_set_parts updates
      then (if pg_params_ok updates
            then (\<exists>r \<in> set (p_users p). r_session_id r = Some sid,
                  p\<lparr>p_users := map (\<lambda>r. if r_session_id r = Some sid
                                         then pg_set_parts now updates r else r) (p_users p)\<rparr>)
            else (False, p))
      else (False, p))"

definition pg_completelyDeleteSession :: "postgres \<Rightarrow> string \<Rightarrow> bool \<times> postgres" where
  "pg_completelyDeleteSession p sid =
     (if \<not> p_isConnected p then (False, p)
      else if p_throws p then (False, p)
      else (\<exists>r \<in> set (p_users p). r_session_id r = Some sid,
            p\<lparr>p_users := filter (\<lambda>r. r_session_id r \<noteq> Some sid) (p_users p)\<rparr>))"

definition pg_getAllSessions :: "postgres \<Rightarrow> session_data list" where
  "pg_getAllSessions p =
     (if \<not> p_isConnected p then []
      else if p_throws p then []
      else map pg_view (sort_key (\<lambda>r. - int (r_updated_at r))
             (filter (\<lambda>r. r_session_id r \<noteq> None) (p_users p))))"

section \<open>Storage coordinator (SessionStorage)\<close>

record session_storage =
  mongoStorage :: mongo
  postgresStorage :: postgres
  clock :: nat

definition saveSession :: "session_storage \<Rightarrow> string \<Rightarrow> session_data \<Rightarrow> bool \<times> session_storage" where
  "saveSession st sid sessionData =
     (let (saved, m') =
            (if m_isConnected (mongoStorage st)
             then mongo_saveSession (clock st) (mongoStorage st) sid sessionData
             else (False, mongoStorage st));
          (pgSaved, p') =
            (if p_isConnected (postgresStorage st)
             then pg_saveSession (clock st) (postgresStorage st) sid sessionData
             else (False, postgresStorage st))
      in (saved \<or> pgSaved, st\<lparr>mongoStorage := m', postgresStorage := p'\<rparr>))"

definition formatSessionData :: "session_data \<Rightarrow> session_data" where
  "formatSessionData sessionData = \<lparr>
     sd_sessionId = sd_sessionId sessionData,
     sd_userId = js_or (sd_userId sessionData) (sd_telegramId sessionData),
     sd_telegramId = js_or (sd_telegramId sessionData) (sd_userId sessionData),
     sd_phoneNumber = sd_phoneNumber sessionData,
     sd_isConnected = JBool (truthy (sd_isConnected sessionData)),
     sd_connectionStatus = js_or (sd_connectionStatus sessionData) (JStr ''disconnected''),
     sd_reconnectAttempts = js_or (sd_reconnectAttempts sessionData) (JNum 0),
     sd_source = js_or (sd_source sessionData) (JStr ''web''),
     sd_detected = JBool (not_false (sd_detected sessionData)),
     sd_createdAt = sd_createdAt sessionData,
     sd_updatedAt = sd_updatedAt sessionData \<rparr>"

text \<open>The record that serves a read: MongoDB first, PostgreSQL when MongoDB gave none.\<close>

definition getSession_raw :: "session_storage \<Rightarrow> string \<Rightarrow> session_data option" where
  "getSession_raw st sid =
     (let sessionData =
            (if m_isConnected (mongoStorage st) then mongo_getSession (mongoStorage st) sid
             else None)
      in if sessionData = None \<and> p_isConnected (postgresStorage st)
         then pg_getSession (postgresStorage st) sid
         else sessionData)"

definition getSession :: "session_storage \<Rightarrow> string \<Rightarrow> session_data option" where
  "getSession st sid = map_option formatSessionData (getSession_raw st sid)"

definition updateSession :: "session_storage \<Rightarrow> string \<Rightarrow> session_data \<Rightarrow> bool \<times> session_storage" where
  "updateSession st sid updates0 =
     (let updates = updates0\<lparr>sd_updatedAt := JDate (clock st)\<rparr>;
          (updated, m') =
            (if m_isConnected (mongoStorage st)
             then mongo_updateSession (clock st) (mongoStorage st) sid updates
             else (False, mongoStorage st));
          (pgUpdated, p') =
            (if p_isConnected (postgresStorage st)
             then pg_updateSession (clock st) (postgresStorage st) sid updates
             else (False, postgresStorage st))
      in (updated \<or> pgUpdated, st\<lparr>mongoStorage := m', postgresStorage := p'\<rparr>))"

text \<open>
  \<^verbatim>\<open>Promise.allSettled\<close> over the deletes of the connected backends; both MongoDB
  deletes act on different collections, so their order does not matter.
\<close>

definition completelyDeleteSession :: "session_storage \<Rightarrow> string \<Rightarrow> bool \<times> session_storage" where
  "completelyDeleteSession st sid =
     (let (r1, m1) =
            (if m_isConnected (mongoStorage st) then mongo_deleteSession (mongoStorage st) sid
             else (False, mongoStorage st));
          (r2, m2) =
            (if m_isConnected (mongoStorage st) then deleteAuthState m1 sid
             else (False, m1));
          (r3, p') =
            (if p_isConnected (postgresStorage st)
             then pg_completelyDeleteSession (postgresStorage st) sid
             else (False, postgresStorage st))
      in (r1 \<or> r2 \<or> r3, st\<lparr>mongoStorage := m2, postgresStorage := p'\<rparr>))"

definition getAllSessions_raw :: "session_storage \<Rightarrow> session_data list" where
  "getAllSessions_raw st =
     (if p_isConnected (postgresStorage st) then pg_getAllSessions (postgresStorage st)
      else if m_isConnected (mongoStorage st) then mongo_getAllSessions (mongoStorage st)
      else [])"

definition getAllSessions :: "session_storage \<Rightarrow> session_data list" where
  "getAllSessions st = map formatSessionData (getAllSessions_raw st)"

section \<open>Connection provider and in-process state of the session manager\<close>

text \<open>The caller's callback object: which of the two callbacks it carries.\<close>

record callbacks =
  cb_onConnected :: bool
  cb_onError :: bool

text \<open>A callback invocation, with the session and (for errors) the status code passed.\<close>

datatype notification = OnConnected string | OnError string "int option"

text \<open>
  A handler attached by \<^verbatim>\<open>_setupConnectionHandler(sock, sessionId, callbacks)\<close>: the
  closure keeps the session id and the callbacks; its socket is the one it is attached to.
\<close>

record listener =
  l_sessionId :: string
  l_callbacks :: callbacks

text \<open>
  The handle returned by the provider, as far as the manager reads and writes it:
  \<^verbatim>\<open>sock.user\<close> (its id), \<^verbatim>\<open>sock.readyState\<close>, \<^verbatim>\<open>sock.ws\<close> with its \<^verbatim>\<open>OPEN\<close> constant,
  the state of the underlying socket and the arguments of a \<^verbatim>\<open>close\<close> call, the event
  buffer, the attached handlers and \<^verbatim>\<open>sock.connectionCallbacks\<close>. The three calls the
  manager makes on the provider's object may raise: \<open>s_flushThrows\<close> for \<^verbatim>\<open>ev.flush\<close>,
  \<open>s_removeThrows\<close> for \<^verbatim>\<open>ev.removeAllListeners\<close>, \<open>ws_closeThrows\<close> for \<^verbatim>\<open>ws.close\<close>.
\<close>

record ws_client =
  ws_OPEN :: "nat option"
  ws_socket :: "nat option"
  ws_closed :: "(nat \<times> string) option"
  ws_closeThrows :: bool

record socket =
  s_user :: "string option"
  s_readyState :: "nat option"
  s_ws :: "ws_client option"
  s_buffering :: bool
  s_flushThrows :: bool
  s_listeners :: "listener list"
  s_removeThrows :: bool
  s_connectionCallbacks :: "callbacks option"

type_synonym handle = nat

text \<open>
  Modelled from the spec: the in-process SessionState registry (state.js is not among
  the sources), a mapping from session id to the metadata seeded at creation; an update
  changes an existing entry only.
\<close>

record session_info =
  si_userId :: string
  si_phoneNumber :: jsval
  si_source :: string
  si_isConnected :: bool
  si_connectionStatus :: string
  si_callbacks :: callbacks

text \<open>The two \<^verbatim>\<open>setTimeout\<close> calls of the connection handler, with their delay.\<close>

datatype timer = HandoffTimer nat string handle | ReconnectTimer nat string callbacks

text \<open>A call of the provider's \<^verbatim>\<open>createConnection(sessionId, phoneNumber, callbacks, allowPairing)\<close>.\<close>

record conn_request =
  rq_sessionId :: string
  rq_phoneNumber :: jsval
  rq_callbacks :: callbacks
  rq_allowPairing :: bool

text \<open>What the provider answers: a new handle, no handle, or an exception.\<close>

datatype conn_result = ConnSocket socket | ConnNone | ConnThrows

text \<open>
  The answers of the external collaborators during one call: the \<^verbatim>\<open>preferred\<close> field of
  \<^verbatim>\<open>checkAuthAvailability\<close> and the outcome of \<^verbatim>\<open>createConnection\<close>.
\<close>

record env =
  authPreferred :: string
  connResult :: conn_result

text \<open>
  The manager: the sockets the provider has handed out (a handle is an index into this
  store, so that a handler and the registry can refer to the same object), the two
  registries, the three flag sets, the configuration, the storage coordinator, and what
  the manager has asked of its surroundings (timers, callbacks, provider calls).
\<close>

record manager =
  sockets :: "socket list"
  activeSockets :: "(string \<times> handle) list"
  sessionState :: "(string \<times> session_info) list"
  initializingSessions :: "string set"
  voluntarilyDisconnected :: "string set"
  handoffComplete :: "string set"
  maxSessions :: nat
  handoffTimeout :: nat
  storage :: session_storage
  timers :: "timer list"
  notifications :: "notification list"
  connectionRequests :: "conn_request list"

definition sock_at :: "manager \<Rightarrow> handle \<Rightarrow> socket option" where
  "sock_at st h = (if h < length (sockets st) then Some (sockets st ! h) else None)"

text \<open>\<^verbatim>\<open>sock.user && sock.readyState === sock.ws?.OPEN\<close>\<close>

definition sock_connected :: "socket \<Rightarrow> bool" where
  "sock_connected s =
     (s_user s \<noteq> None \<and>
      s_readyState s = (case s_ws s of None \<Rightarrow> None | Some w \<Rightarrow> ws_OPEN w))"

definition handle_connected :: "manager \<Rightarrow> handle \<Rightarrow> bool" where
  "handle_connected st h = (case sock_at st h of None \<Rightarrow> False | Some s \<Rightarrow> sock_connected s)"

text \<open>\<^verbatim>\<open>activeSockets.delete(sessionId); sessionState.delete(sessionId)\<close>\<close>

definition unregister :: "manager \<Rightarrow> string \<Rightarrow> manager" where
  "unregister st sid = st\<lparr>
     activeSockets := AList.delete sid (activeSockets st),
     sessionState := AList.delete sid (sessionState st) \<rparr>"

section \<open>Session manager (SessionManager)\<close>

text \<open>
  \<^verbatim>\<open>_cleanupSocketOnly\<close> on the socket itself, with the result it returns. Inside one
  \<^verbatim>\<open>try\<close> block: flush when buffering (a raising flush is caught on the spot and
  ignored), detach all listeners, close the transport with code 1000 when the underlying
  socket is open, clear \<^verbatim>\<open>user\<close> and \<^verbatim>\<open>connectionCallbacks\<close>, return true. When
  \<^verbatim>\<open>removeAllListeners\<close> or \<^verbatim>\<open>close\<close> raises, the \<^verbatim>\<open>catch\<close> returns false and the
  statements after the raising call have not run.
\<close>

definition teardown :: "socket \<Rightarrow> bool \<times> socket" where
  "teardown s =
     (let s1 = (if s_buffering s \<and> \<not> s_flushThrows s then s\<lparr>s_buffering := False\<rparr> else s)
      in if s_removeThrows s1 then (False, s1)
         else
           let s2 = s1\<lparr>s_listeners := []\<rparr>
           in case s_ws s2 of
                None \<Rightarrow> (True, s2\<lparr>s_user := None, s_connectionCallbacks := None\<rparr>)
              | Some w \<Rightarrow>
                  if ws_socket w = Some 1
                  then (if ws_closeThrows w then (False, s2)
                        else (True, s2\<lparr>s_ws := Some (w\<lparr>ws_closed :=
                                          Some (1000, ''Handoff to main server'')\<rparr>),
                                       s_user := None, s_connectionCallbacks := None\<rparr>))
                  else (True, s2\<lparr>s_user := None, s_connectionCallbacks := None\<rparr>))"

text \<open>
  \<^verbatim>\<open>_cleanupSocketOnly(sessionId, sock)\<close>. It touches nothing but the socket. With no
  socket behind the handle the property read raises, which the method catches and reports
  as \<open>False\<close>.
\<close>

definition cleanupSocketOnly :: "manager \<Rightarrow> string \<Rightarrow> handle \<Rightarrow> bool \<times> manager" where
  "cleanupSocketOnly st sid h =
     (case sock_at st h of
        None \<Rightarrow> (False, st)
      | Some s \<Rightarrow> (fst (teardown s), st\<lparr>sockets := (sockets st)[h := snd (teardown s)]\<rparr>))"

text \<open>
  Modelled from the spec: \<^verbatim>\<open>ConnectionManager.cleanupAuthState(sessionId)\<close>
  (connection.js is not among the sources) purges the credential blobs of the session
  through the designated adapter, \<^verbatim>\<open>MongoDBStorage.deleteAuthState\<close>, and reports the
  outcome per backend as \<^verbatim>\<open>{mongodb, file}\<close>; the provider's file backend holds no
  blob of this model and reports \<open>False\<close>.
\<close>

definition cleanupAuthState :: "session_storage \<Rightarrow> string \<Rightarrow> (bool \<times> bool) \<times> session_storage" where
  "cleanupAuthState sto sid =
     (let (r, m') = deleteAuthState (mongoStorage sto) sid
      in ((r, False), sto\<lparr>mongoStorage := m'\<rparr>))"

record cleanup_results =
  res_socket :: bool
  res_database :: bool
  res_authState :: bool

definition performCompleteUserCleanup :: "manager \<Rightarrow> string \<Rightarrow> cleanup_results \<times> manager" where
  "performCompleteUserCleanup st sid =
     (let (rs, st1) = (case map_of (activeSockets st) sid of
                         None \<Rightarrow> (False, st)
                       | Some h \<Rightarrow> cleanupSocketOnly st sid h);
          st2 = (unregister st1 sid)\<lparr>
                  initializingSessions := initializingSessions st1 - {sid},
                  voluntarilyDisconnected := insert sid (voluntarilyDisconnected st1),
                  handoffComplete := handoffComplete st1 - {sid} \<rparr>;
          (rd, sto1) = completelyDeleteSession (storage st2) sid;
          ((rm, rf), sto2) = cleanupAuthState sto1 sid
      in (\<lparr>res_socket = rs, res_database = rd, res_authState = (rm \<or> rf)\<rparr>,
          st2\<lparr>storage := sto2\<rparr>))"

text \<open>
  \<^verbatim>\<open>_handoffToMainServer\<close>. The body is one \<^verbatim>\<open>try\<close> block: the liveness check, the
  marker, the transport teardown, the removal from the registries. \<open>removalThrows\<close> is an
  exception raised by the registry removal after the teardown (the SessionState class is
  outside the sources); the \<^verbatim>\<open>catch\<close> then removes the marker again.
\<close>

definition handoffToMainServer :: "manager \<Rightarrow> string \<Rightarrow> handle \<Rightarrow> bool \<Rightarrow> manager" where
  "handoffToMainServer st sid h removalThrows =
     (if \<not> handle_connected st h then st
      else
        let st1 = st\<lparr>handoffComplete := insert sid (handoffComplete st)\<rparr>;
            st2 = snd (cleanupSocketOnly st1 sid h);
            st3 = st2\<lparr>activeSockets := AList.delete sid (activeSockets st2)\<rparr>
        in if removalThrows
           then st3\<lparr>handoffComplete := handoffComplete st3 - {sid}\<rparr>
           else st3\<lparr>sessionState := AList.delete sid (sessionState st3)\<rparr>)"

text \<open>The update every close branch but 515 writes first.\<close>

definition mark_disconnected :: "manager \<Rightarrow> string \<Rightarrow> manager" where
  "mark_disconnected st sid =
     st\<lparr>storage := snd (updateSession (storage st) sid
           (no_fields\<lparr>sd_isConnected := JBool False,
                       sd_connectionStatus := JStr ''disconnected''\<rparr>))\<rparr>"

text \<open>\<^verbatim>\<open>if (callbacks.onError) callbacks.onError(lastDisconnect?.error)\<close>\<close>

definition notify_error :: "manager \<Rightarrow> string \<Rightarrow> callbacks \<Rightarrow> int option \<Rightarrow> manager" where
  "notify_error st sid cbs statusCode =
     (if cb_onError cbs
      then st\<lparr>notifications := notifications st @ [OnError sid statusCode]\<rparr>
      else st)"

text \<open>\<^verbatim>\<open>sock.user?.id?.split('@')[0] || null\<close>\<close>

definition paired_number :: "socket \<Rightarrow> jsval" where
  "paired_number s =
     (case s_user s of
        None \<Rightarrow> JNull
      | Some jid \<Rightarrow>
          let n = takeWhile (\<lambda>c. c \<noteq> CHR ''@'') jid
          in if n = [] then JNull else JStr n)"

text \<open>The event the provider emits on \<^verbatim>\<open>connection.update\<close>, with the status code of \<^verbatim>\<open>lastDisconnect\<close>.\<close>

datatype update = ConnOpen | ConnClose "int option" | ConnOther

text \<open>
  The handler \<^verbatim>\<open>_setupConnectionHandler\<close> attaches to socket \<open>h\<close> for session \<open>sid\<close>, run
  on one event from its first statement to its last.
\<close>

definition connection_update ::
  "manager \<Rightarrow> handle \<Rightarrow> string \<Rightarrow> callbacks \<Rightarrow> update \<Rightarrow> manager" where
  "connection_update st h sid cbs upd =
     (case upd of
        ConnOpen \<Rightarrow>
          let number = (case sock_at st h of None \<Rightarrow> JNull | Some s \<Rightarrow> paired_number s);
              st1 = st\<lparr>storage := snd (updateSession (storage st) sid
                      (no_fields\<lparr>sd_isConnected := JBool True,
                                  sd_connectionStatus := JStr ''connected'',
                                  sd_phoneNumber := number,
                                  sd_detected := JBool False\<rparr>))\<rparr>;
              st2 = st1\<lparr>sessionState :=
                      map (\<lambda>(k, i). if k = sid
                                     then (k, i\<lparr>si_isConnected := True,
                                                 si_connectionStatus := ''connected''\<rparr>)
                                     else (k, i)) (sessionState st1)\<rparr>;
              st3 = (if cb_onConnected cbs
                     then st2\<lparr>notifications := notifications st2 @ [OnConnected sid]\<rparr>
                     else st2)
          in st3\<lparr>timers := timers st3 @ [HandoffTimer (handoffTimeout st3) sid h]\<rparr>
      | ConnOther \<Rightarrow> st
      | ConnClose statusCode \<Rightarrow>
          if sid \<in> handoffComplete st then st
          else if statusCode = Some 401 then
            let st1 = mark_disconnected st sid;
                st2 = st1\<lparr>storage := snd (cleanupAuthState (storage st1) sid)\<rparr>;
                st3 = snd (cleanupSocketOnly st2 sid h);
                st4 = unregister st3 sid
            in notify_error st4 sid cbs statusCode
          else if statusCode = Some 515 then
            let st1 = st\<lparr>storage := snd (updateSession (storage st) sid
                      (no_fields\<lparr>sd_isConnected := JBool False,
                                  sd_connectionStatus := JStr ''reconnecting'',
                                  sd_detected := JBool False\<rparr>))\<rparr>;
                st2 = notify_error st1 sid cbs statusCode
            in st2\<lparr>timers := timers st2 @ [ReconnectTimer 3000 sid cbs]\<rparr>
          else if statusCode = Some 428 then
            let st1 = mark_disconnected st sid;
                st2 = st1\<lparr>storage := snd (cleanupAuthState (storage st1) sid)\<rparr>;
                st3 = snd (cleanupSocketOnly st2 sid h);
                st4 = unregister st3 sid
            in notify_error st4 sid cbs statusCode
          else
            let st1 = mark_disconnected st sid;
                st2 = snd (cleanupSocketOnly st1 sid h);
                st3 = unregister st2 sid
            in notify_error st3 sid cbs statusCode)"

text \<open>\<^verbatim>\<open>sock.ev.on('connection.update', ...)\<close> on the socket behind \<open>h\<close>.\<close>

definition setupConnectionHandler :: "manager \<Rightarrow> handle \<Rightarrow> string \<Rightarrow> callbacks \<Rightarrow> manager" where
  "setupConnectionHandler st h sid cbs =
     (case sock_at st h of
        None \<Rightarrow> st
      | Some s \<Rightarrow>
          st\<lparr>sockets := (sockets st)[h := s\<lparr>s_listeners := s_listeners s @
                 [\<lparr>l_sessionId = sid, l_callbacks = cbs\<rparr>]\<rparr>]\<rparr>)"

text \<open>
  The callback of the 3000 ms timer set on a 515 close. \<open>res\<close> is what the provider
  answers if it is asked for a connection.
\<close>

definition reconnect_after_515 ::
  "manager \<Rightarrow> conn_result \<Rightarrow> string \<Rightarrow> callbacks \<Rightarrow> manager" where
  "reconnect_after_515 st res sid cbs =
     (case getSession (storage st) sid of
        None \<Rightarrow> mark_disconnected st sid
      | Some session \<Rightarrow>
          if \<not> truthy (sd_phoneNumber session) then mark_disconnected st sid
          else
            let st1 = st\<lparr>connectionRequests := connectionRequests st @
                        [\<lparr>rq_sessionId = sid, rq_phoneNumber = sd_phoneNumber session,
                          rq_callbacks = cbs, rq_allowPairing = False\<rparr>]\<rparr>
            in case res of
                 ConnThrows \<Rightarrow> mark_disconnected st1 sid
               | ConnNone \<Rightarrow> mark_disconnected st1 sid
               | ConnSocket s0 \<Rightarrow>
                   let newSock = length (sockets st1);
                       st2 = st1\<lparr>
                         sockets := sockets st1 @ [s0\<lparr>s_connectionCallbacks := Some cbs\<rparr>],
                         activeSockets := AList.update sid newSock (activeSockets st1) \<rparr>
                   in setupConnectionHandler st2 newSock sid cbs)"

text \<open>
  \<^verbatim>\<open>createSession\<close> in its three parts. The first part runs from the entry of the
  \<^verbatim>\<open>try\<close> block to \<^verbatim>\<open>initializingSessions.add\<close>: it either leaves the block (a
  \<^verbatim>\<open>return\<close> or the limit error) or lets the call continue. The second part is the rest
  of the \<^verbatim>\<open>try\<close> block, which starts with the first call to the provider, where the call
  is suspended and other calls run. The third part is the \<^verbatim>\<open>finally\<close> block.
\<close>

datatype error = MaxSessionsReached | ConnectionCreationFailed | ProviderError

definition sessionId_of :: "string \<Rightarrow> string" where
  "sessionId_of userIdStr =
     (if take 8 userIdStr = ''session_'' then userIdStr else ''session_'' @ userIdStr)"

definition check_limit :: "manager \<Rightarrow> string \<Rightarrow> (error + handle option) option \<times> manager" where
  "check_limit st sid =
     (if length (activeSockets st) \<ge> maxSessions st then (Some (Inl MaxSessionsReached), st)
      else (None, st\<lparr>initializingSessions := insert sid (initializingSessions st)\<rparr>))"

definition createSession_enter ::
  "manager \<Rightarrow> string \<Rightarrow> bool \<Rightarrow> (error + handle option) option \<times> manager" where
  "createSession_enter st sid isReconnect =
     (if sid \<in> initializingSessions st then (Some (Inr (map_of (activeSockets st) sid)), st)
      else if sid \<in> handoffComplete st then (Some (Inr None), st)
      else
        case map_of (activeSockets st) sid of
          None \<Rightarrow> check_limit st sid
        | Some existingSocket \<Rightarrow>
            if isReconnect then check_limit st sid
            else if handle_connected st existingSocket
            then (Some (Inr (Some existingSocket)), st)
            else check_limit (unregister (snd (cleanupSocketOnly st sid existingSocket)) sid) sid)"

definition createSession_body ::
  "manager \<Rightarrow> env \<Rightarrow> string \<Rightarrow> string \<Rightarrow> jsval \<Rightarrow> callbacks \<Rightarrow> bool \<Rightarrow> string \<Rightarrow> bool
     \<Rightarrow> (error + handle option) \<times> manager" where
  "createSession_body st e userIdStr sid phoneNumber cbs isReconnect source allowPairing =
     (let st1 = (if \<not> isReconnect \<and> allowPairing \<and> authPreferred e \<noteq> ''none''
                 then snd (performCompleteUserCleanup st sid) else st);
          st2 = st1\<lparr>connectionRequests := connectionRequests st1 @
                  [\<lparr>rq_sessionId = sid, rq_phoneNumber = phoneNumber,
                    rq_callbacks = cbs, rq_allowPairing = allowPairing\<rparr>]\<rparr>
      in case connResult e of
           ConnThrows \<Rightarrow> (Inl ProviderError, st2)
         | ConnNone \<Rightarrow> (Inl ConnectionCreationFailed, st2)
         | ConnSocket s0 \<Rightarrow>
             let sock = length (sockets st2);
                 st3 = st2\<lparr>
                   sockets := sockets st2 @ [s0\<lparr>s_connectionCallbacks := Some cbs\<rparr>],
                   activeSockets := AList.update sid sock (activeSockets st2),
                   sessionState := AList.update sid
                     \<lparr>si_userId = userIdStr, si_phoneNumber = phoneNumber, si_source = source,
                       si_isConnected = False, si_connectionStatus = ''connecting'',
                       si_callbacks = cbs\<rparr> (sessionState st2) \<rparr>;
                 st4 = setupConnectionHandler st3 sock sid cbs;
                 st5 = st4\<lparr>storage := snd (saveSession (storage st4) sid
                         (no_fields\<lparr>sd_userId := JStr userIdStr,
                                     sd_telegramId := JStr userIdStr,
                                     sd_phoneNumber := phoneNumber,
                                     sd_isConnected := JBool False,
                                     sd_connectionStatus := JStr ''connecting'',
                                     sd_reconnectAttempts := JNum 0,
                                     sd_source := JStr source,
                                     sd_detected := JBool False\<rparr>))\<rparr>
             in (Inr (Some sock), st5))"

definition createSession_finally :: "manager \<Rightarrow> string \<Rightarrow> manager" where
  "createSession_finally st sid = st\<lparr>initializingSessions := initializingSessions st - {sid}\<rparr>"

text \<open>One call run from entry to exit with no other call in between.\<close>

definition createSession ::
  "manager \<Rightarrow> env \<Rightarrow> string \<Rightarrow> jsval \<Rightarrow> callbacks \<Rightarrow> bool \<Rightarrow> string \<Rightarrow> bool
     \<Rightarrow> (error + handle option) \<times> manager" where
  "createSession st e userIdStr phoneNumber cbs isReconnect source allowPairing =
     (let sid = sessionId_of userIdStr in
      case createSession_enter st sid isReconnect of
        (Some r, st1) \<Rightarrow> (r, createSession_finally st1 sid)
      | (None, st1) \<Rightarrow>
          let (r, st2) = createSession_body st1 e userIdStr sid phoneNumber cbs
                           isReconnect source allowPairing
          in (r, createSession_finally st2 sid))"

section \<open>Example states\<close>

text \<open>Both backends connected and empty; the manager as its constructor leaves it.\<close>

definition new_storage :: session_storage where
  "new_storage = \<lparr>
     mongoStorage = \<lparr>m_isConnected = True, m_authBaileys = Some [], m_sessions = [],
                     m_throws = False\<rparr>,
     postgresStorage = \<lparr>p_isConnected = True, p_users = [], p_throws = False\<rparr>,
     clock = 1000 \<rparr>"

definition new_manager :: "session_storage \<Rightarrow> manager" where
  "new_manager sto = \<lparr>
     sockets = [], activeSockets = [], sessionState = [],
     initializingSessions = {}, voluntarilyDisconnected = {}, handoffComplete = {},
     maxSessions = 300, handoffTimeout = 15000, storage = sto,
     timers = [], notifications = [], connectionRequests = [] \<rparr>"

text \<open>A handle of the provider that is authenticated and whose transport is open.\<close>

definition paired_socket :: socket where
  "paired_socket = \<lparr>
     s_user = Some ''15550001@s.whatsapp.net'', s_readyState = Some 1,
     s_ws = Some \<lparr>ws_OPEN = Some 1, ws_socket = Some 1, ws_closed = None,
                   ws_closeThrows = False\<rparr>,
     s_buffering = False, s_flushThrows = False, s_listeners = [], s_removeThrows = False,
     s_connectionCallbacks = None \<rparr>"

definition both_callbacks :: callbacks where
  "both_callbacks = \<lparr>cb_onConnected = True, cb_onError = True\<rparr>"

definition pairing_env :: env where
  "pairing_env = \<lparr>authPreferred = ''none'', connResult = ConnSocket paired_socket\<rparr>"

text \<open>
  Scenario A of the specification: session \<^verbatim>\<open>session_42\<close> with phone number 15550001
  and no prior credentials is created, then its connection opens.
\<close>

definition scenario_created :: manager where
  "scenario_created =
     snd (createSession (new_manager new_storage) pairing_env
            ''42'' (JStr ''15550001'') both_callbacks False ''web'' True)"

definition scenario_open :: manager where
  "scenario_open = connection_update scenario_created 0 ''session_42'' both_callbacks ConnOpen"

text \<open>
  A handle that is registered but dead: the provider returned a socket that has not been
  authenticated (no \<^verbatim>\<open>user\<close>), and no event has arrived yet.
\<close>

definition unpaired_socket :: socket where
  "unpaired_socket = \<lparr>
     s_user = None, s_readyState = Some 1,
     s_ws = Some \<lparr>ws_OPEN = Some 1, ws_socket = Some 1, ws_closed = None,
                   ws_closeThrows = False\<rparr>,
     s_buffering = True, s_flushThrows = False, s_listeners = [], s_removeThrows = False,
     s_connectionCallbacks = None \<rparr>"

definition scenario_dead :: manager where
  "scenario_dead =
     snd (createSession (new_manager new_storage)
            \<lparr>authPreferred = ''none'', connResult = ConnSocket unpaired_socket\<rparr>
            ''42'' (JStr ''15550001'') both_callbacks False ''web'' True)"

text \<open>
  Three calls of \<^verbatim>\<open>createSession\<close> for the same user, interleaved at the suspension
  points of the first: call A enters and is suspended at its first provider call; call B
  runs from entry to exit; call C enters and is suspended; A resumes and finishes; C
  resumes and finishes.
\<close>

definition race_A_entered :: manager where
  "race_A_entered = snd (createSession_enter (new_manager new_storage) ''session_42'' False)"

definition race_B_done :: manager where
  "race_B_done =
     snd (createSession race_A_entered pairing_env
            ''42'' (JStr ''15550001'') both_callbacks False ''web'' True)"

definition race_C_entered :: manager where
  "race_C_entered = snd (createSession_enter race_B_done ''session_42'' False)"

definition race_A_done :: manager where
  "race_A_done =
     createSession_finally
       (snd (createSession_body race_C_entered pairing_env ''42'' ''session_42''
               (JStr ''15550001'') both_callbacks False ''web'' True)) ''session_42''"

definition race_C_done :: manager where
  "race_C_done =
     createSession_finally
       (snd (createSession_body race_A_done pairing_env ''42'' ''session_42''
               (JStr ''15550001'') both_callbacks False ''web'' True)) ''session_42''"

text \<open>
  Scenario B of the specification: session \<^verbatim>\<open>session_7\<close> reconnects with credentials in
  the store (two blobs of its own, one of another session), its connection opens, then it
  receives a close event with status 401.
\<close>

definition creds_storage :: session_storage where
  "creds_storage = \<lparr>
     mongoStorage = \<lparr>m_isConnected = True,
       m_authBaileys = Some [
         \<lparr>a_sessionId = ''session_7'', a_filename = ''creds.json'',
           a_datajson = ''{noiseKey}'', a_updatedAt = 900\<rparr>,
         \<lparr>a_sessionId = ''session_7'', a_filename = ''pre-key-1.json'',
           a_datajson = ''{keyPair}'', a_updatedAt = 900\<rparr>,
         \<lparr>a_sessionId = ''session_8'', a_filename = ''creds.json'',
           a_datajson = ''{noiseKey}'', a_updatedAt = 900\<rparr>],
       m_sessions = [], m_throws = False\<rparr>,
     postgresStorage = \<lparr>p_isConnected = True, p_users = [], p_throws = False\<rparr>,
     clock = 1000 \<rparr>"

definition scenario_7_open :: manager where
  "scenario_7_open =
     connection_update
       (snd (createSession (new_manager creds_storage) pairing_env
               ''7'' (JStr ''15550007'') both_callbacks True ''web'' False))
       0 ''session_7'' both_callbacks ConnOpen"

definition scenario_7_closed :: manager where
  "scenario_7_closed =
     connection_update scenario_7_open 0 ''session_7'' both_callbacks (ConnClose (Some 401))"

text \<open>Scenario A continued by a close event with status 515.\<close>

definition scenario_515 :: manager where
  "scenario_515 =
     connection_update scenario_open 0 ''session_42'' both_callbacks (ConnClose (Some 515))"

text \<open>
  A store whose MongoDB documents were written by another process: one has no
  \<^verbatim>\<open>detected\<close> field, one holds null, one holds false. PostgreSQL is not connected.
\<close>

definition legacy_doc :: "string \<Rightarrow> jsval \<Rightarrow> mongo_doc" where
  "legacy_doc sid v = \<lparr>
     d_sessionId = sid, d_telegramId = JStr ''9'', d_phoneNumber = JStr ''15550009'',
     d_isConnected = JBool True, d_connectionStatus = JStr ''connected'',
     d_reconnectAttempts = JNum 0, d_source = JStr ''web'', d_detected = v,
     d_createdAt = JDate 500, d_updatedAt = 500 \<rparr>"

definition legacy_storage :: session_storage where
  "legacy_storage = \<lparr>
     mongoStorage = \<lparr>m_isConnected = True, m_authBaileys = Some [],
       m_sessions = [legacy_doc ''session_9'' JUndefined, legacy_doc ''session_10'' JNull,
                     legacy_doc ''session_11'' (JBool False)],
       m_throws = False\<rparr>,
     postgresStorage = \<lparr>p_isConnected = False, p_users = [], p_throws = False\<rparr>,
     clock = 1000 \<rparr>"

text \<open>
  A session created without a phone number and never paired, then closed with status 515:
  the record read back when the timer fires has no phone number.
\<close>

definition scenario_nophone_515 :: manager where
  "scenario_nophone_515 =
     connection_update
       (snd (createSession (new_manager new_storage)
               \<lparr>authPreferred = ''none'', connResult = ConnSocket unpaired_socket\<rparr>
               ''43'' JNull both_callbacks False ''web'' True))
       0 ''session_43'' both_callbacks (ConnClose (Some 515))"

text \<open>
  Scenario A with a socket whose \<^verbatim>\<open>ws.close\<close> raises: the session is created, its
  connection opens, and the handoff timer fires while the handle is live.
\<close>

definition stuck_socket :: socket where
  "stuck_socket = \<lparr>
     s_user = Some ''15550001@s.whatsapp.net'', s_readyState = Some 1,
     s_ws = Some \<lparr>ws_OPEN = Some 1, ws_socket = Some 1, ws_closed = None,
                   ws_closeThrows = True\<rparr>,
     s_buffering = False, s_flushThrows = False, s_listeners = [], s_removeThrows = False,
     s_connectionCallbacks = None \<rparr>"

definition scenario_stuck_open :: manager where
  "scenario_stuck_open =
     connection_update
       (snd (createSession (new_manager new_storage)
               \<lparr>authPreferred = ''none'', connResult = ConnSocket stuck_socket\<rparr>
               ''42'' (JStr ''15550001'') both_callbacks False ''web'' True))
       0 ''session_42'' both_callbacks ConnOpen"

definition scenario_stuck_handoff :: manager where
  "scenario_stuck_handoff = handoffToMainServer scenario_stuck_open ''session_42'' 0 False"

text \<open>
  A store served by PostgreSQL: three rows whose \<^verbatim>\<open>detected\<close> column holds NULL, false
  and true, the first two for the same session id under different users. MongoDB is not
  connected.
\<close>

definition pg_example_row :: "int \<Rightarrow> string \<Rightarrow> jsval \<Rightarrow> nat \<Rightarrow> pg_row" where
  "pg_example_row tid sid v t = \<lparr>
     r_telegram_id = tid, r_session_id = Some sid, r_phone_number = JStr ''15550009'',
     r_is_connected = JBool True, r_connection_status = JStr ''connected'',
     r_reconnect_attempts = JNum 0, r_source = JStr ''web'', r_detected = v,
     r_created_at = 500, r_updated_at = t \<rparr>"

definition pg_example_storage :: session_storage where
  "pg_example_storage = \<lparr>
     mongoStorage = \<lparr>m_isConnected = False, m_authBaileys = None, m_sessions = [],
                     m_throws = False\<rparr>,
     postgresStorage = \<lparr>p_isConnected = True,
       p_users = [pg_example_row 21 ''session_21'' JNull 700,
                  pg_example_row 22 ''session_21'' (JBool False) 800,
                  pg_example_row 23 ''session_23'' (JBool True) 900],
       p_throws = False\<rparr>,
     clock = 1000 \<rparr>"

text \<open>
  A forced reconnect of the live session of scenario A, suspended at its first provider
  call: the session is in the initializing set while its previous handle is registered.
\<close>

definition reconnect_entered :: manager where
  "reconnect_entered = snd (createSession_enter scenario_open ''session_42'' True)"

section \<open>Evaluation rules and frame lemmas\<close>

named_theorems run

declare new_storage_def [run] new_manager_def [run] paired_socket_def [run] both_callbacks_def [run]
  pairing_env_def [run] scenario_created_def [run] scenario_open_def [run]
  createSession_def [run] createSession_enter_def [run] createSession_body_def [run]
  createSession_finally_def [run] check_limit_def [run] sessionId_of_def [run]
  setupConnectionHandler_def [run] sock_at_def [run] handle_connected_def [run]
  sock_connected_def [run] cleanupSocketOnly_def [run] teardown_def [run] unregister_def [run]
  connection_update_def [run] paired_number_def [run] mark_disconnected_def [run]
  notify_error_def [run] handoffToMainServer_def [run] reconnect_after_515_def [run]
  performCompleteUserCleanup_def [run] cleanupAuthState_def [run]
  saveSession_def [run] updateSession_def [run] getSession_def [run] getSession_raw_def [run]
  getAllSessions_def [run] getAllSessions_raw_def [run] completelyDeleteSession_def [run]
  formatSessionData_def [run] no_fields_def [run]
  mongo_saveSession_def [run] mongo_updateSession_def [run] mongo_getSession_def [run]
  mongo_getAllSessions_def [run] mongo_deleteSession_def [run] mongo_view_def [run]
  set_fields_def [run] deleteAuthState_def [run] readAuthData_def [run] writeAuthData_def [run]
  getAllAuthFiles_def [run] sanitize_def [run] replace_char_def [run]
  pg_saveSession_def [run] pg_updateSession_def [run] pg_getSession_def [run]
  pg_getAllSessions_def [run] pg_completelyDeleteSession_def [run] pg_view_def [run]
  pg_set_parts_def [run] pg_has_set_parts_def [run] sql_param_def [run] coalesce_def [run]
  js_or_def [run] not_false_def [run] parse_digits_def [run] digit_val_def [run] Let_def [run]
  bson_def [run] is_space_def [run] hex_val_def [run] to_double_def [run] parseInt_str_def [run]
  int_literal_def [run] pg_integer_def [run] pg_params_ok_def [run]
  stuck_socket_def [run] scenario_stuck_open_def [run] scenario_stuck_handoff_def [run]
  pg_example_row_def [run] pg_example_storage_def [run] reconnect_entered_def [run]

lemma close_guard:
  "sid \<in> handoffComplete st \<Longrightarrow> connection_update st h sid cbs (ConnClose code) = st"
  by (simp add: connection_update_def)

lemma cleanup_frame:
  "storage (snd (cleanupSocketOnly st sid h)) = storage st"
  "activeSockets (snd (cleanupSocketOnly st sid h)) = activeSockets st"
  "sessionState (snd (cleanupSocketOnly st sid h)) = sessionState st"
  "handoffComplete (snd (cleanupSocketOnly st sid h)) = handoffComplete st"
  "initializingSessions (snd (cleanupSocketOnly st sid h)) = initializingSessions st"
  "voluntarilyDisconnected (snd (cleanupSocketOnly st sid h)) = voluntarilyDisconnected st"
  "timers (snd (cleanupSocketOnly st sid h)) = timers st"
  "notifications (snd (cleanupSocketOnly st sid h)) = notifications st"
  "connectionRequests (snd (cleanupSocketOnly st sid h)) = connectionRequests st"
  "maxSessions (snd (cleanupSocketOnly st sid h)) = maxSessions st"
  "handoffTimeout (snd (cleanupSocketOnly st sid h)) = handoffTimeout st"
  "length (sockets (snd (cleanupSocketOnly st sid h))) = length (sockets st)"
  by (simp_all add: cleanupSocketOnly_def split: option.splits)

lemma cleanup_sock:
  "sock_at (snd (cleanupSocketOnly st sid h)) h' =
     (if h' = h then map_option (\<lambda>s. snd (teardown s)) (sock_at st h) else sock_at st h')"
  by (auto simp: cleanupSocketOnly_def sock_at_def split: option.splits)

lemma map_of_delete_same: "map_of (AList.delete k xs) k = None"
  by (simp add: AList.delete_conv')

text \<open>What the teardown leaves of a socket whose calls do not raise.\<close>

lemma teardown_done:
  assumes "\<not> s_removeThrows s" "\<And>w. s_ws s = Some w \<Longrightarrow> \<not> ws_closeThrows w"
  shows "fst (teardown s)"
    "s_listeners (snd (teardown s)) = []"
    "s_user (snd (teardown s)) = None"
    "s_connectionCallbacks (snd (teardown s)) = None"
    "\<not> s_flushThrows s \<Longrightarrow> \<not> s_buffering (snd (teardown s))"
    "\<And>w. s_ws s = Some w \<Longrightarrow> ws_socket w = Some 1 \<Longrightarrow>
       s_ws (snd (teardown s)) = Some (w\<lparr>ws_closed := Some (1000, ''Handoff to main server'')\<rparr>)"
    "\<And>w. s_ws s = Some w \<Longrightarrow> ws_socket w \<noteq> Some 1 \<Longrightarrow> s_ws (snd (teardown s)) = Some w"
  using assms by (auto simp: teardown_def Let_def split: option.splits)

lemma handoff_frame:
  "storage (handoffToMainServer st sid h f) = storage st"
  "timers (handoffToMainServer st sid h f) = timers st"
  "notifications (handoffToMainServer st sid h f) = notifications st"
  "connectionRequests (handoffToMainServer st sid h f) = connectionRequests st"
  by (simp_all add: handoffToMainServer_def Let_def cleanup_frame)

lemma scenario_open_live: "handle_connected scenario_open 0"
  by (simp add: run)

declare scenario_dead_def [run] unpaired_socket_def [run] scenario_nophone_515_def [run] race_A_entered_def [run] race_B_done_def [run]
  race_C_entered_def [run] race_A_done_def [run] race_C_done_def [run]

lemma unregister_frame:
  "storage (unregister st sid) = storage st"
  "sockets (unregister st sid) = sockets st"
  "handoffComplete (unregister st sid) = handoffComplete st"
  "initializingSessions (unregister st sid) = initializingSessions st"
  "voluntarilyDisconnected (unregister st sid) = voluntarilyDisconnected st"
  "timers (unregister st sid) = timers st"
  "notifications (unregister st sid) = notifications st"
  "connectionRequests (unregister st sid) = connectionRequests st"
  "map_of (activeSockets (unregister st sid)) sid = None"
  "map_of (sessionState (unregister st sid)) sid = None"
  by (simp_all add: unregister_def map_of_delete_same)

lemma sock_at_unregister: "sock_at (unregister st sid) h = sock_at st h"
  by (simp add: sock_at_def unregister_def)

lemma enter_dead:
  assumes "sid \<notin> initializingSessions st" "sid \<notin> handoffComplete st"
    "map_of (activeSockets st) sid = Some h" "\<not> handle_connected st h"
  shows "createSession_enter st sid False =
           createSession_enter (unregister (snd (cleanupSocketOnly st sid h)) sid) sid False"
  using assms by (simp add: createSession_enter_def unregister_frame cleanup_frame)

lemma find_updateOne:
  "(\<And>d. d_sessionId (f d) = d_sessionId d) \<Longrightarrow>
   find (\<lambda>d. d_sessionId d = sid) (updateOne sid f xs)
     = map_option f (find (\<lambda>d. d_sessionId d = sid) xs)"
  by (induction xs) auto

lemma find_map_rows:
  "(\<And>r. r_session_id (f r) = r_session_id r) \<Longrightarrow>
   find (\<lambda>r. r_session_id r = Some sid)
        (map (\<lambda>r. if r_session_id r = Some sid then f r else r) xs)
     = map_option f (find (\<lambda>r. r_session_id r = Some sid) xs)"
  by (induction xs) auto

lemma set_fields_sessionId: "d_sessionId (set_fields now u d) = d_sessionId d"
  by (simp add: set_fields_def)

lemma pg_set_parts_session_id: "r_session_id (pg_set_parts now u r) = r_session_id r"
  by (simp add: pg_set_parts_def)

lemma mongo_get_after_update:
  "mongo_getSession (snd (mongo_updateSession now m sid u)) sid
     = map_option (\<lambda>d. mongo_view (set_fields now u d))
         (if m_isConnected m \<and> \<not> m_throws m
          then find (\<lambda>d. d_sessionId d = sid) (m_sessions m) else None)"
  by (simp add: mongo_getSession_def mongo_updateSession_def find_updateOne set_fields_sessionId
        option.map_comp comp_def)

lemma pg_get_after_update:
  "pg_has_set_parts u \<Longrightarrow> pg_params_ok u \<Longrightarrow>
   pg_getSession (snd (pg_updateSession now p sid u)) sid
     = map_option (\<lambda>r. pg_view (pg_set_parts now u r))
         (if p_isConnected p \<and> \<not> p_throws p
          then find (\<lambda>r. r_session_id r = Some sid) (p_users p) else None)"
  by (simp add: pg_getSession_def pg_updateSession_def find_map_rows pg_set_parts_session_id
        option.map_comp comp_def)

lemma updateSession_parts:
  "mongoStorage (snd (updateSession sto sid u)) =
     (if m_isConnected (mongoStorage sto)
      then snd (mongo_updateSession (clock sto) (mongoStorage sto) sid
                  (u\<lparr>sd_updatedAt := JDate (clock sto)\<rparr>))
      else mongoStorage sto)"
  "postgresStorage (snd (updateSession sto sid u)) =
     (if p_isConnected (postgresStorage sto)
      then snd (pg_updateSession (clock sto) (postgresStorage sto) sid
                  (u\<lparr>sd_updatedAt := JDate (clock sto)\<rparr>))
      else postgresStorage sto)"
  "clock (snd (updateSession sto sid u)) = clock sto"
  by (simp_all add: updateSession_def Let_def split: prod.splits)

lemma mongo_update_flags:
  "m_isConnected (snd (mongo_updateSession now m sid u)) = m_isConnected m"
  "m_throws (snd (mongo_updateSession now m sid u)) = m_throws m"
  "m_authBaileys (snd (mongo_updateSession now m sid u)) = m_authBaileys m"
  by (simp_all add: mongo_updateSession_def)

lemma pg_update_flags:
  "p_isConnected (snd (pg_updateSession now p sid u)) = p_isConnected p"
  "p_throws (snd (pg_updateSession now p sid u)) = p_throws p"
  by (simp_all add: pg_updateSession_def)

lemma updateSession_flags:
  "m_isConnected (mongoStorage (snd (updateSession sto sid u))) = m_isConnected (mongoStorage sto)"
  "m_throws (mongoStorage (snd (updateSession sto sid u))) = m_throws (mongoStorage sto)"
  "m_authBaileys (mongoStorage (snd (updateSession sto sid u))) = m_authBaileys (mongoStorage sto)"
  "p_isConnected (postgresStorage (snd (updateSession sto sid u))) = p_isConnected (postgresStorage sto)"
  "p_throws (postgresStorage (snd (updateSession sto sid u))) = p_throws (postgresStorage sto)"
  by (simp_all add: updateSession_parts mongo_update_flags pg_update_flags)

text \<open>What a read of the session shows after an update that sets the three fields.\<close>

lemma getSession_after_update:
  assumes u: "sd_isConnected u = JBool b" "sd_connectionStatus u = JStr s" "s \<noteq> []"
      "sd_reconnectAttempts u = JUndefined"
    and g: "getSession (snd (updateSession sto sid u)) sid = Some r"
  shows "sd_isConnected r = JBool b \<and> sd_connectionStatus r = JStr s
         \<and> (sd_detected u = JBool c \<longrightarrow> sd_detected r = JBool c)"
proof -
  let ?u = "u\<lparr>sd_updatedAt := JDate (clock sto)\<rparr>"
  have hp: "pg_has_set_parts ?u" using u by (simp add: pg_has_set_parts_def)
  have hq: "pg_params_ok ?u" using u by (simp add: pg_params_ok_def)
  have mv: "\<And>d. sd_isConnected (formatSessionData (mongo_view (set_fields (clock sto) ?u d))) = JBool b
        \<and> sd_connectionStatus (formatSessionData (mongo_view (set_fields (clock sto) ?u d))) = JStr s
        \<and> (sd_detected u = JBool c \<longrightarrow>
              sd_detected (formatSessionData (mongo_view (set_fields (clock sto) ?u d))) = JBool c)"
    using u by (simp add: formatSessionData_def mongo_view_def set_fields_def js_or_def not_false_def)
  have pv: "\<And>r. sd_isConnected (formatSessionData (pg_view (pg_set_parts (clock sto) ?u r))) = JBool b
        \<and> sd_connectionStatus (formatSessionData (pg_view (pg_set_parts (clock sto) ?u r))) = JStr s
        \<and> (sd_detected u = JBool c \<longrightarrow>
              sd_detected (formatSessionData (pg_view (pg_set_parts (clock sto) ?u r))) = JBool c)"
    using u by (simp add: formatSessionData_def pg_view_def pg_set_parts_def js_or_def not_false_def)
  from g have "(\<exists>d. r = formatSessionData (mongo_view (set_fields (clock sto) ?u d)))
             \<or> (\<exists>x. r = formatSessionData (pg_view (pg_set_parts (clock sto) ?u x)))"
    by (auto simp: getSession_def getSession_raw_def Let_def updateSession_parts updateSession_flags
          mongo_get_after_update pg_get_after_update [OF hp hq]
          split: if_splits)
  then show ?thesis using mv pv by blast
qed


lemma cleanupAuthState_frame:
  "postgresStorage (snd (cleanupAuthState sto sid)) = postgresStorage sto"
  "clock (snd (cleanupAuthState sto sid)) = clock sto"
  "m_sessions (mongoStorage (snd (cleanupAuthState sto sid))) = m_sessions (mongoStorage sto)"
  "m_isConnected (mongoStorage (snd (cleanupAuthState sto sid))) = m_isConnected (mongoStorage sto)"
  "m_throws (mongoStorage (snd (cleanupAuthState sto sid))) = m_throws (mongoStorage sto)"
  by (simp_all add: cleanupAuthState_def deleteAuthState_def split: prod.splits option.splits)

lemma cleanupAuthState_reads:
  "getSession (snd (cleanupAuthState sto sid)) sid' = getSession sto sid'"
  "getAllSessions (snd (cleanupAuthState sto sid)) = getAllSessions sto"
  by (simp_all add: getSession_def getSession_raw_def getAllSessions_def getAllSessions_raw_def
        mongo_getSession_def mongo_getAllSessions_def cleanupAuthState_frame)

lemma cleanupAuthState_listing:
  "getAllAuthFiles (mongoStorage (snd (cleanupAuthState sto sid))) sid = []"
  by (auto simp: cleanupAuthState_def deleteAuthState_def getAllAuthFiles_def filter_empty_conv
        split: prod.splits option.splits if_splits)

lemma cleanupAuthState_purges:
  "m_isConnected (mongoStorage sto) \<Longrightarrow> \<not> m_throws (mongoStorage sto) \<Longrightarrow>
   m_authBaileys (mongoStorage sto) = Some docs \<Longrightarrow>
   m_authBaileys (mongoStorage (snd (cleanupAuthState sto sid)))
     = Some (filter (\<lambda>a. a_sessionId a \<noteq> sid) docs)"
  by (simp add: cleanupAuthState_def deleteAuthState_def split: prod.splits)

lemma notify_error_frame:
  "storage (notify_error st sid cbs c) = storage st"
  "sockets (notify_error st sid cbs c) = sockets st"
  "activeSockets (notify_error st sid cbs c) = activeSockets st"
  "sessionState (notify_error st sid cbs c) = sessionState st"
  "timers (notify_error st sid cbs c) = timers st"
  "connectionRequests (notify_error st sid cbs c) = connectionRequests st"
  "handoffComplete (notify_error st sid cbs c) = handoffComplete st"
  "notifications (notify_error st sid cbs c)
     = notifications st @ (if cb_onError cbs then [OnError sid c] else [])"
  by (simp_all add: notify_error_def)


lemma close_401:
  "sid \<notin> handoffComplete st \<Longrightarrow>
   connection_update st h sid cbs (ConnClose (Some 401)) =
     notify_error (unregister (snd (cleanupSocketOnly
        (st\<lparr>storage := snd (cleanupAuthState (snd (updateSession (storage st) sid
            (no_fields\<lparr>sd_isConnected := JBool False,
                        sd_connectionStatus := JStr ''disconnected''\<rparr>))) sid)\<rparr>) sid h)) sid)
       sid cbs (Some 401)"
  by (simp add: connection_update_def mark_disconnected_def Let_def)


lemma close_515:
  "sid \<notin> handoffComplete st \<Longrightarrow>
   connection_update st h sid cbs (ConnClose (Some 515)) =
     (notify_error (st\<lparr>storage := snd (updateSession (storage st) sid
            (no_fields\<lparr>sd_isConnected := JBool False,
                        sd_connectionStatus := JStr ''reconnecting'',
                        sd_detected := JBool False\<rparr>))\<rparr>) sid cbs (Some 515))
       \<lparr>timers := timers st @ [ReconnectTimer 3000 sid cbs]\<rparr>"
  by (simp add: connection_update_def Let_def notify_error_def)

lemma reconnect_abort:
  "getSession (storage s) sid = None \<or>
     (\<exists>r. getSession (storage s) sid = Some r \<and> \<not> truthy (sd_phoneNumber r)) \<Longrightarrow>
   reconnect_after_515 s res sid cbs = mark_disconnected s sid"
  by (auto simp: reconnect_after_515_def)

lemma reconnect_request:
  "getSession (storage s) sid = Some r \<Longrightarrow> truthy (sd_phoneNumber r) \<Longrightarrow>
   connectionRequests (reconnect_after_515 s res sid cbs)
     = connectionRequests s @ [\<lparr>rq_sessionId = sid, rq_phoneNumber = sd_phoneNumber r,
                                 rq_callbacks = cbs, rq_allowPairing = False\<rparr>]"
  by (cases res)
     (simp_all add: reconnect_after_515_def Let_def mark_disconnected_def
        setupConnectionHandler_def sock_at_def)

lemma reconnect_success:
  "getSession (storage s) sid = Some r \<Longrightarrow> truthy (sd_phoneNumber r) \<Longrightarrow>
   map_of (activeSockets (reconnect_after_515 s (ConnSocket s0) sid cbs)) sid
       = Some (length (sockets s))
   \<and> sock_at (reconnect_after_515 s (ConnSocket s0) sid cbs) (length (sockets s))
       = Some (s0\<lparr>s_connectionCallbacks := Some cbs,
                  s_listeners := s_listeners s0 @ [\<lparr>l_sessionId = sid, l_callbacks = cbs\<rparr>]\<rparr>)
   \<and> storage (reconnect_after_515 s (ConnSocket s0) sid cbs) = storage s"
  by (simp add: reconnect_after_515_def Let_def setupConnectionHandler_def sock_at_def
        AList.update_conv')

lemma reconnect_failure:
  "getSession (storage s) sid = Some r \<Longrightarrow> truthy (sd_phoneNumber r) \<Longrightarrow>
   res = ConnNone \<or> res = ConnThrows \<Longrightarrow>
   storage (reconnect_after_515 s res sid cbs) = storage (mark_disconnected s sid)
   \<and> activeSockets (reconnect_after_515 s res sid cbs) = activeSockets s
   \<and> sockets (reconnect_after_515 s res sid cbs) = sockets s"
  by (auto simp: reconnect_after_515_def Let_def mark_disconnected_def)

declare creds_storage_def [run] scenario_7_open_def [run] scenario_7_closed_def [run]
  scenario_515_def [run]


lemma updateOne_mem:
  "d \<in> set xs \<Longrightarrow> d_sessionId d = sid \<Longrightarrow>
   \<exists>d' \<in> set xs. d_sessionId d' = sid \<and> f d' \<in> set (updateOne sid f xs)"
  by (induction xs) auto

lemma mongo_getAll_after_update:
  assumes u: "sd_isConnected u = JBool b" "sd_connectionStatus u = JStr s" "s \<noteq> []"
    and x: "x \<in> set (mongo_getAllSessions m)" "sd_sessionId x = JStr sid"
  shows "\<exists>y \<in> set (mongo_getAllSessions (snd (mongo_updateSession now m sid u))).
           sd_sessionId y = JStr sid \<and> sd_isConnected (formatSessionData y) = JBool b
           \<and> sd_connectionStatus (formatSessionData y) = JStr s"
proof -
  from x have ok: "m_isConnected m" "\<not> m_throws m"
    by (auto simp: mongo_getAllSessions_def split: if_splits)
  from x ok obtain d where d: "d \<in> set (m_sessions m)" "d_sessionId d = sid"
    by (auto simp: mongo_getAllSessions_def mongo_view_def)
  from updateOne_mem [OF d, of "set_fields now u"]
  obtain d' where d': "d' \<in> set (m_sessions m)" "d_sessionId d' = sid"
      "set_fields now u d' \<in> set (updateOne sid (set_fields now u) (m_sessions m))"
    by blast
  let ?y = "mongo_view (set_fields now u d')"
  have "?y \<in> set (mongo_getAllSessions (snd (mongo_updateSession now m sid u)))"
    using ok d' by (simp add: mongo_getAllSessions_def mongo_updateSession_def)
  moreover have "sd_sessionId ?y = JStr sid" using d'
    by (simp add: mongo_view_def set_fields_def)
  moreover have "sd_isConnected (formatSessionData ?y) = JBool b
      \<and> sd_connectionStatus (formatSessionData ?y) = JStr s"
    using u by (simp add: formatSessionData_def mongo_view_def set_fields_def js_or_def)
  ultimately show ?thesis by blast
qed

lemma pg_getAll_after_update:
  assumes u: "sd_isConnected u = JBool b" "sd_connectionStatus u = JStr s" "s \<noteq> []"
      "sd_reconnectAttempts u = JUndefined"
    and x: "x \<in> set (pg_getAllSessions p)" "sd_sessionId x = JStr sid"
  shows "\<exists>y \<in> set (pg_getAllSessions (snd (pg_updateSession now p sid u))).
           sd_sessionId y = JStr sid \<and> sd_isConnected (formatSessionData y) = JBool b
           \<and> sd_connectionStatus (formatSessionData y) = JStr s"
proof -
  have hp: "pg_has_set_parts u" using u by (simp add: pg_has_set_parts_def)
  have hq: "pg_params_ok u" using u by (simp add: pg_params_ok_def)
  from x have ok: "p_isConnected p" "\<not> p_throws p"
    by (auto simp: pg_getAllSessions_def split: if_splits)
  from x ok obtain r where r: "r \<in> set (p_users p)" "r_session_id r = Some sid"
    by (auto simp: pg_getAllSessions_def pg_view_def split: option.splits)
  let ?y = "pg_view (pg_set_parts now u r)"
  have "?y \<in> set (pg_getAllSessions (snd (pg_updateSession now p sid u)))"
    using ok r hp hq
    by (auto simp: pg_getAllSessions_def pg_updateSession_def pg_set_parts_session_id
          intro!: image_eqI [where x = "pg_set_parts now u r"])
  moreover have "sd_sessionId ?y = JStr sid" using r
    by (simp add: pg_view_def pg_set_parts_def)
  moreover have "sd_isConnected (formatSessionData ?y) = JBool b
      \<and> sd_connectionStatus (formatSessionData ?y) = JStr s"
    using u by (simp add: formatSessionData_def pg_view_def pg_set_parts_def js_or_def)
  ultimately show ?thesis by blast
qed

lemma format_sessionId: "sd_sessionId (formatSessionData x) = sd_sessionId x"
  by (simp add: formatSessionData_def)

lemma getAll_after_update:
  assumes u: "sd_isConnected u = JBool b" "sd_connectionStatus u = JStr s" "s \<noteq> []"
      "sd_reconnectAttempts u = JUndefined"
    and x: "x \<in> set (getAllSessions sto)" "sd_sessionId x = JStr sid"
  shows "\<exists>y \<in> set (getAllSessions (snd (updateSession sto sid u))).
           sd_sessionId y = JStr sid \<and> sd_isConnected y = JBool b
           \<and> sd_connectionStatus y = JStr s"
proof -
  let ?u = "u\<lparr>sd_updatedAt := JDate (clock sto)\<rparr>"
  have u': "sd_isConnected ?u = JBool b" "sd_connectionStatus ?u = JStr s"
    "sd_reconnectAttempts ?u = JUndefined" using u by simp_all
  from x obtain x0 where x0: "x0 \<in> set (getAllSessions_raw sto)" "sd_sessionId x0 = JStr sid"
    by (auto simp: getAllSessions_def format_sessionId)
  show ?thesis
  proof (cases "p_isConnected (postgresStorage sto)")
    case True
    with x0 have "x0 \<in> set (pg_getAllSessions (postgresStorage sto))"
      by (simp add: getAllSessions_raw_def)
    from pg_getAll_after_update [OF u'(1) u'(2) u(3) u'(3) this x0(2), of "clock sto"]
    show ?thesis using True
      by (auto simp: getAllSessions_def getAllSessions_raw_def updateSession_parts
            pg_update_flags mongo_update_flags format_sessionId)
  next
    case False
    with x0 have mc: "m_isConnected (mongoStorage sto)"
      and "x0 \<in> set (mongo_getAllSessions (mongoStorage sto))"
      by (auto simp: getAllSessions_raw_def split: if_splits)
    from mongo_getAll_after_update [OF u'(1) u'(2) u(3) this(2) x0(2), of "clock sto"]
    show ?thesis using False mc
      by (auto simp: getAllSessions_def getAllSessions_raw_def updateSession_parts
            pg_update_flags mongo_update_flags format_sessionId)
  qed
qed

declare legacy_doc_def [run] legacy_storage_def [run]

lemma find_replaceOne: "d_sessionId d = sid \<Longrightarrow>
   find (\<lambda>x. d_sessionId x = sid) (replaceOne sid d xs) = Some d"
  by (induction xs) auto

lemma format_detected: "sd_detected (formatSessionData x) = JBool (sd_detected x \<noteq> JBool False)"
  by (simp add: formatSessionData_def not_false_def)

lemma view_detected:
  "sd_detected (formatSessionData (mongo_view d)) = JBool (d_detected d \<noteq> JBool False)"
  "sd_detected (formatSessionData (pg_view r)) = JBool (r_detected r \<noteq> JBool False)"
  by (simp_all add: formatSessionData_def mongo_view_def pg_view_def not_false_def)

lemma find_SomeD: "find P xs = Some x \<Longrightarrow> x \<in> set xs \<and> P x"
  by (induction xs) (auto split: if_splits)

lemma mongo_getSession_source:
  "mongo_getSession m sid = Some raw \<Longrightarrow>
   \<exists>d \<in> set (m_sessions m). d_sessionId d = sid \<and> raw = mongo_view d"
  by (auto simp: mongo_getSession_def split: if_splits dest: find_SomeD)

lemma pg_getSession_source:
  "pg_getSession p sid = Some raw \<Longrightarrow>
   \<exists>row \<in> set (p_users p). r_session_id row = Some sid \<and> raw = pg_view row"
  by (auto simp: pg_getSession_def split: if_splits dest: find_SomeD)

lemma getSession_raw_source:
  assumes "getSession_raw sto sid = Some raw"
  shows "(\<exists>d \<in> set (m_sessions (mongoStorage sto)). d_sessionId d = sid \<and> raw = mongo_view d)
       \<or> (\<exists>row \<in> set (p_users (postgresStorage sto)).
            r_session_id row = Some sid \<and> raw = pg_view row)"
proof -
  from assms have "mongo_getSession (mongoStorage sto) sid = Some raw
      \<or> pg_getSession (postgresStorage sto) sid = Some raw"
    by (simp add: getSession_raw_def Let_def split: if_splits)
  then show ?thesis
    using mongo_getSession_source [of "mongoStorage sto" sid raw]
      pg_getSession_source [of "postgresStorage sto" sid raw] by blast
qed

lemma getSession_source:
  assumes "getSession sto sid = Some r"
  shows "(\<exists>d \<in> set (m_sessions (mongoStorage sto)).
            d_sessionId d = sid \<and> r = formatSessionData (mongo_view d))
       \<or> (\<exists>row \<in> set (p_users (postgresStorage sto)).
            r_session_id row = Some sid \<and> r = formatSessionData (pg_view row))"
proof -
  from assms obtain raw where raw: "getSession_raw sto sid = Some raw" "r = formatSessionData raw"
    by (auto simp: getSession_def)
  from getSession_raw_source [OF raw(1)] raw(2) show ?thesis by blast
qed

lemma mongo_getAllSessions_source:
  "raw \<in> set (mongo_getAllSessions m) \<Longrightarrow> \<exists>d \<in> set (m_sessions m). raw = mongo_view d"
  by (auto simp: mongo_getAllSessions_def split: if_splits)

lemma pg_getAllSessions_source:
  "raw \<in> set (pg_getAllSessions p) \<Longrightarrow> \<exists>row \<in> set (p_users p). raw = pg_view row"
  by (auto simp: pg_getAllSessions_def split: if_splits)

lemma getAllSessions_source:
  assumes "r \<in> set (getAllSessions sto)"
  shows "(\<exists>d \<in> set (m_sessions (mongoStorage sto)). r = formatSessionData (mongo_view d))
       \<or> (\<exists>row \<in> set (p_users (postgresStorage sto)). r = formatSessionData (pg_view row))"
proof -
  from assms obtain raw where raw: "raw \<in> set (getAllSessions_raw sto)" "r = formatSessionData raw"
    by (auto simp: getAllSessions_def)
  from raw(1) have "raw \<in> set (mongo_getAllSessions (mongoStorage sto))
      \<or> raw \<in> set (pg_getAllSessions (postgresStorage sto))"
    by (simp add: getAllSessions_raw_def split: if_splits)
  then show ?thesis
    using mongo_getAllSessions_source [of raw "mongoStorage sto"]
      pg_getAllSessions_source [of raw "postgresStorage sto"] raw(2) by blast
qed

lemma view_sessionId: "sd_sessionId (formatSessionData (mongo_view d)) = JStr (d_sessionId d)"
  by (simp add: formatSessionData_def mongo_view_def)

lemma mongo_save_detected:
  "fst (mongo_saveSession now m sid x) \<Longrightarrow>
   map_option d_detected (find (\<lambda>d. d_sessionId d = sid)
       (m_sessions (snd (mongo_saveSession now m sid x))))
     = Some (JBool (sd_detected x \<noteq> JBool False))"
  by (simp add: mongo_saveSession_def Let_def find_replaceOne not_false_def split: if_splits)

lemma replace_colons_id: "CHR '':'' \<notin> set f \<Longrightarrow> replace_colons f = f"
  by (induction f rule: replace_colons.induct) auto

lemma replace_char_id: "a \<notin> set f \<Longrightarrow> replace_char a b f = f"
  by (induction f) (auto simp: replace_char_def)

lemma sanitize_id:
  "CHR '':'' \<notin> set f \<Longrightarrow> CHR ''/'' \<notin> set f \<Longrightarrow> CHR 0x5C \<notin> set f \<Longrightarrow> sanitize f = f"
  by (simp add: sanitize_def replace_colons_id replace_char_id)

lemma find_upsert_same:
  "find (\<lambda>a. a_sessionId a = a_sessionId d \<and> a_filename a = a_filename d) (upsert_auth d xs)
     = Some d"
  by (induction xs) auto

lemma find_upsert_other:
  "a_sessionId d \<noteq> sid \<or> a_filename d \<noteq> k \<Longrightarrow>
   find (\<lambda>a. a_sessionId a = sid \<and> a_filename a = k) (upsert_auth d xs)
     = find (\<lambda>a. a_sessionId a = sid \<and> a_filename a = k) xs"
  by (induction xs) auto

lemma read_after_write:
  "fst (writeAuthData now m sid f p) \<Longrightarrow> p \<noteq> [] \<Longrightarrow>
   readAuthData (snd (writeAuthData now m sid f p)) sid f = Some p"
  using find_upsert_same [of "\<lparr>a_sessionId = sid, a_filename = sanitize f,
                      a_datajson = p, a_updatedAt = now\<rparr>"]
  by (auto simp: writeAuthData_def readAuthData_def split: option.splits if_splits)

lemma read_other_write:
  "sid' \<noteq> sid \<or> sanitize g \<noteq> sanitize f \<Longrightarrow>
   readAuthData (snd (writeAuthData now m sid' g q)) sid f = readAuthData m sid f"
  using find_upsert_other [of "\<lparr>a_sessionId = sid', a_filename = sanitize g,
                      a_datajson = q, a_updatedAt = now\<rparr>" sid "sanitize f"]
  by (auto simp: writeAuthData_def readAuthData_def split: option.splits if_splits)


text \<open>A call for a session with nothing registered leaves the existing sockets alone.\<close>

lemma body_keeps_sockets:
  assumes "h < length (sockets st)" "map_of (activeSockets st) sid = None"
  shows "sock_at (snd (createSession_body st e userIdStr sid phoneNumber cbs isReconnect source
                          allowPairing)) h = sock_at st h"
  using assms
  by (cases "connResult e")
     (auto simp: createSession_body_def performCompleteUserCleanup_def Let_def sock_at_def
        unregister_def setupConnectionHandler_def nth_append split: prod.splits)

lemma sock_at_flags:
  "sock_at (createSession_finally st sid) h = sock_at st h"
  "sock_at (st\<lparr>initializingSessions := x\<rparr>) h = sock_at st h"
  by (simp_all add: sock_at_def createSession_finally_def)

lemma create_keeps_sockets:
  assumes "h < length (sockets st)" "map_of (activeSockets st) sid = None"
    "sid = sessionId_of userIdStr"
  shows "sock_at (snd (createSession st e userIdStr phoneNumber cbs isReconnect source
                          allowPairing)) h = sock_at st h"
proof (cases "sid \<in> initializingSessions st \<or> sid \<in> handoffComplete st
              \<or> maxSessions st \<le> length (activeSockets st)")
  case True
  then have "\<exists>r. createSession_enter st sid isReconnect = (Some r, st)"
    using assms(2) by (auto simp: createSession_enter_def check_limit_def)
  then obtain r where "createSession_enter st sid isReconnect = (Some r, st)" by blast
  then show ?thesis
    by (simp add: createSession_def Let_def assms(3) [symmetric] sock_at_flags)
next
  case False
  let ?st1 = "st\<lparr>initializingSessions := insert sid (initializingSessions st)\<rparr>"
  let ?B = "createSession_body ?st1 e userIdStr sid phoneNumber cbs isReconnect source allowPairing"
  have e: "createSession_enter st sid isReconnect = (None, ?st1)"
    using False assms(2) by (auto simp: createSession_enter_def check_limit_def)
  have b: "sock_at (snd ?B) h = sock_at ?st1 h"
    using assms(1,2) by (intro body_keeps_sockets) simp_all
  have c: "createSession st e userIdStr phoneNumber cbs isReconnect source allowPairing
             = (fst ?B, createSession_finally (snd ?B) sid)"
    by (simp add: createSession_def Let_def assms(3) [symmetric] e split: prod.splits)
  show ?thesis
    by (simp add: c b sock_at_flags)
qed

text \<open>Reads in terms of the stored documents and rows.\<close>

lemma getSession_stored:
  "getSession sto sid =
     (case (if m_isConnected (mongoStorage sto) \<and> \<not> m_throws (mongoStorage sto)
            then find (\<lambda>d. d_sessionId d = sid) (m_sessions (mongoStorage sto)) else None) of
        Some d \<Rightarrow> Some (formatSessionData (mongo_view d))
      | None \<Rightarrow>
          (if p_isConnected (postgresStorage sto) \<and> \<not> p_throws (postgresStorage sto)
           then map_option (\<lambda>row. formatSessionData (pg_view row))
                  (find (\<lambda>x. r_session_id x = Some sid) (p_users (postgresStorage sto)))
           else None))"
  by (simp add: getSession_def getSession_raw_def mongo_getSession_def pg_getSession_def Let_def
        option.map_comp comp_def split: option.splits)

lemma getAllSessions_stored:
  "p_isConnected (postgresStorage sto) \<Longrightarrow> \<not> p_throws (postgresStorage sto) \<Longrightarrow>
   getAllSessions sto = map (\<lambda>row. formatSessionData (pg_view row))
      (sort_key (\<lambda>r. - int (r_updated_at r))
         (filter (\<lambda>r. r_session_id r \<noteq> None) (p_users (postgresStorage sto))))"
  "\<not> p_isConnected (postgresStorage sto) \<Longrightarrow> m_isConnected (mongoStorage sto) \<Longrightarrow>
   \<not> m_throws (mongoStorage sto) \<Longrightarrow>
   getAllSessions sto = map (\<lambda>d. formatSessionData (mongo_view d))
      (sort_key (\<lambda>d. - int (d_updatedAt d)) (m_sessions (mongoStorage sto)))"
  by (simp_all add: getAllSessions_def getAllSessions_raw_def pg_getAllSessions_def
        mongo_getAllSessions_def comp_def)

lemma view_telegramId: "sd_telegramId (formatSessionData (pg_view row)) = JNum (r_telegram_id row)"
  by (simp add: formatSessionData_def pg_view_def js_or_def)

section \<open>Connection handler and handoff\<close>

text \<open>
  C1. Once a session id is in the handed-off set, a close event delivered to the
  connection handler of that session is a no-op, whatever its status code: the manager
  state after the handler is the state before it, which covers the storage coordinator
  with the session records and the credential blobs, the registries and flag sets, the
  sockets, the timers and the callback invocations.
\<close>

theorem close_after_handoff_is_noop:
  "sid \<in> handoffComplete st \<Longrightarrow> connection_update st h sid cbs (ConnClose code) = st"
  by (rule close_guard)

text \<open>
  In scenario A the handoff of the live session sets the marker, and a later close event
  with status 401 on the superseded handle leaves the state as the handoff left it.
\<close>

theorem close_after_handoff_is_noop_witness:
  "''session_42'' \<in> handoffComplete (handoffToMainServer scenario_open ''session_42'' 0 False) \<and>
   connection_update (handoffToMainServer scenario_open ''session_42'' 0 False) 0 ''session_42''
      both_callbacks (ConnClose (Some 401))
     = handoffToMainServer scenario_open ''session_42'' 0 False"
proof -
  have m: "''session_42'' \<in> handoffComplete (handoffToMainServer scenario_open ''session_42'' 0 False)"
    using scenario_open_live by (simp add: handoffToMainServer_def Let_def cleanup_frame)
  from close_after_handoff_is_noop [OF m] m show ?thesis by simp
qed


section \<open>Session creation\<close>

text \<open>
  C3, as amended. For a call of \<^verbatim>\<open>createSession\<close> with session id \<open>sid\<close>: if \<open>sid\<close> is
  in the initializing set, the call returns whatever handle the registry holds for \<open>sid\<close>
  at that moment (none when nothing is registered yet, the previous handle during a
  forced reconnect, the new handle once the creation in flight has registered it) and
  leaves sockets, registry and storage as they were; otherwise, if \<open>sid\<close> is in the
  handed-off set, it returns nothing, with the same frame; otherwise, if a live handle is
  registered and \<open>isReconnect\<close> is false, it returns that handle, with the same frame;
  otherwise, if a dead handle is registered and \<open>isReconnect\<close> is false, the call behaves
  as the same call made after the transport-only teardown of that handle and its removal
  from both registries. The teardown leaves the storage alone, and the old socket is, at
  the end of the call, what the teardown made of it: when the provider's calls do not
  raise, it has no listener, no user, no callbacks, and its transport is closed with
  code 1000 if it was open.
\<close>

theorem createSession_guards:
  assumes sid: "sid = sessionId_of userIdStr"
  shows
  "(sid \<in> initializingSessions st \<longrightarrow>
      fst (createSession st e userIdStr phoneNumber cbs isReconnect source allowPairing)
        = Inr (map_of (activeSockets st) sid)
      \<and> sockets (snd (createSession st e userIdStr phoneNumber cbs isReconnect source allowPairing))
        = sockets st
      \<and> activeSockets (snd (createSession st e userIdStr phoneNumber cbs isReconnect source
                              allowPairing)) = activeSockets st
      \<and> storage (snd (createSession st e userIdStr phoneNumber cbs isReconnect source allowPairing))
        = storage st)
   \<and> (sid \<notin> initializingSessions st \<and> sid \<in> handoffComplete st \<longrightarrow>
      fst (createSession st e userIdStr phoneNumber cbs isReconnect source allowPairing)
        = Inr None
      \<and> sockets (snd (createSession st e userIdStr phoneNumber cbs isReconnect source allowPairing))
        = sockets st
      \<and> activeSockets (snd (createSession st e userIdStr phoneNumber cbs isReconnect source
                              allowPairing)) = activeSockets st
      \<and> storage (snd (createSession st e userIdStr phoneNumber cbs isReconnect source allowPairing))
        = storage st)
   \<and> (sid \<notin> initializingSessions st \<and> sid \<notin> handoffComplete st \<and>
       map_of (activeSockets st) sid = Some h \<and> handle_connected st h \<longrightarrow>
      fst (createSession st e userIdStr phoneNumber cbs False source allowPairing)
        = Inr (Some h)
      \<and> sockets (snd (createSession st e userIdStr phoneNumber cbs False source allowPairing))
        = sockets st
      \<and> activeSockets (snd (createSession st e userIdStr phoneNumber cbs False source allowPairing))
        = activeSockets st
      \<and> storage (snd (createSession st e userIdStr phoneNumber cbs False source allowPairing))
        = storage st)
   \<and> (sid \<notin> initializingSessions st \<and> sid \<notin> handoffComplete st \<and>
       map_of (activeSockets st) sid = Some h \<and> \<not> handle_connected st h \<longrightarrow>
      createSession st e userIdStr phoneNumber cbs False source allowPairing
        = createSession (unregister (snd (cleanupSocketOnly st sid h)) sid)
            e userIdStr phoneNumber cbs False source allowPairing
      \<and> sock_at (unregister (snd (cleanupSocketOnly st sid h)) sid) h
        = map_option (\<lambda>s. snd (teardown s)) (sock_at st h)
      \<and> map_of (activeSockets (unregister (snd (cleanupSocketOnly st sid h)) sid)) sid = None
      \<and> map_of (sessionState (unregister (snd (cleanupSocketOnly st sid h)) sid)) sid = None
      \<and> storage (unregister (snd (cleanupSocketOnly st sid h)) sid) = storage st
      \<and> (\<forall>s. sock_at st h = Some s \<longrightarrow>
            sock_at (snd (createSession st e userIdStr phoneNumber cbs False source allowPairing)) h
              = Some (snd (teardown s)))
      \<and> (\<forall>s. sock_at st h = Some s \<and> \<not> s_removeThrows s
               \<and> (\<forall>w. s_ws s = Some w \<longrightarrow> \<not> ws_closeThrows w) \<longrightarrow>
            (\<exists>s'. sock_at (snd (createSession st e userIdStr phoneNumber cbs False source
                                  allowPairing)) h = Some s'
               \<and> s_listeners s' = [] \<and> s_user s' = None \<and> s_connectionCallbacks s' = None
               \<and> (\<forall>w. s_ws s = Some w \<and> ws_socket w = Some 1 \<longrightarrow>
                     s_ws s' = Some (w\<lparr>ws_closed := Some (1000, ''Handoff to main server'')\<rparr>)))))"
proof -
  let ?st' = "unregister (snd (cleanupSocketOnly st sid h)) sid"
  have s: "sock_at ?st' h = map_option (\<lambda>s. snd (teardown s)) (sock_at st h)"
    by (simp add: sock_at_unregister cleanup_sock)
  have t: "storage ?st' = storage st" "map_of (activeSockets ?st') sid = None"
    "map_of (sessionState ?st') sid = None"
    by (simp_all add: unregister_frame cleanup_frame)
  have i: "sid \<in> initializingSessions st \<Longrightarrow>
      createSession st e userIdStr phoneNumber cbs isReconnect source allowPairing
        = (Inr (map_of (activeSockets st) sid), createSession_finally st sid)"
    using sid by (simp add: createSession_def createSession_enter_def Let_def)
  have ii: "sid \<notin> initializingSessions st \<Longrightarrow> sid \<in> handoffComplete st \<Longrightarrow>
      createSession st e userIdStr phoneNumber cbs isReconnect source allowPairing
        = (Inr None, createSession_finally st sid)"
    using sid by (simp add: createSession_def createSession_enter_def Let_def)
  have iii: "sid \<notin> initializingSessions st \<Longrightarrow> sid \<notin> handoffComplete st \<Longrightarrow>
       map_of (activeSockets st) sid = Some h \<Longrightarrow> handle_connected st h \<Longrightarrow>
      createSession st e userIdStr phoneNumber cbs False source allowPairing
        = (Inr (Some h), createSession_finally st sid)"
    using sid by (simp add: createSession_def createSession_enter_def Let_def)
  have d: "sid \<notin> initializingSessions st \<Longrightarrow> sid \<notin> handoffComplete st \<Longrightarrow>
       map_of (activeSockets st) sid = Some h \<Longrightarrow> \<not> handle_connected st h \<Longrightarrow>
      createSession st e userIdStr phoneNumber cbs False source allowPairing
        = createSession ?st' e userIdStr phoneNumber cbs False source allowPairing"
    using enter_dead [of sid st h] sid by (simp add: createSession_def)
  have k: "\<And>s. sock_at st h = Some s \<Longrightarrow>
      sock_at (snd (createSession ?st' e userIdStr phoneNumber cbs False source allowPairing)) h
        = Some (snd (teardown s))"
  proof -
    fix s assume a: "sock_at st h = Some s"
    then have "h < length (sockets ?st')"
      by (simp add: sock_at_def unregister_frame cleanup_frame split: if_splits)
    from create_keeps_sockets [OF this t(2) sid]
    show "sock_at (snd (createSession ?st' e userIdStr phoneNumber cbs False source allowPairing)) h
        = Some (snd (teardown s))"
      by (simp add: s a)
  qed
  have p: "\<And>s. sock_at st h = Some s \<Longrightarrow> \<not> s_removeThrows s \<Longrightarrow>
      \<forall>w. s_ws s = Some w \<longrightarrow> \<not> ws_closeThrows w \<Longrightarrow>
      \<exists>s'. sock_at (snd (createSession ?st' e userIdStr phoneNumber cbs False source allowPairing)) h
               = Some s'
          \<and> s_listeners s' = [] \<and> s_user s' = None \<and> s_connectionCallbacks s' = None
          \<and> (\<forall>w. s_ws s = Some w \<and> ws_socket w = Some 1 \<longrightarrow>
                s_ws s' = Some (w\<lparr>ws_closed := Some (1000, ''Handoff to main server'')\<rparr>))"
  proof -
    fix s assume a: "sock_at st h = Some s" and b: "\<not> s_removeThrows s"
      and c: "\<forall>w. s_ws s = Some w \<longrightarrow> \<not> ws_closeThrows w"
    from c have c': "\<And>w. s_ws s = Some w \<Longrightarrow> \<not> ws_closeThrows w" by blast
    have f: "s_listeners (snd (teardown s)) = []" "s_user (snd (teardown s)) = None"
      "s_connectionCallbacks (snd (teardown s)) = None"
      using b c' by (simp_all add: teardown_done)
    have g: "\<forall>w. s_ws s = Some w \<and> ws_socket w = Some 1 \<longrightarrow>
        s_ws (snd (teardown s)) = Some (w\<lparr>ws_closed := Some (1000, ''Handoff to main server'')\<rparr>)"
      using teardown_done(6) [OF b c'] by blast
    show "\<exists>s'. sock_at (snd (createSession ?st' e userIdStr phoneNumber cbs False source allowPairing)) h
               = Some s'
          \<and> s_listeners s' = [] \<and> s_user s' = None \<and> s_connectionCallbacks s' = None
          \<and> (\<forall>w. s_ws s = Some w \<and> ws_socket w = Some 1 \<longrightarrow>
                s_ws s' = Some (w\<lparr>ws_closed := Some (1000, ''Handoff to main server'')\<rparr>))"
      using k [OF a] f g by blast
  qed
  show ?thesis
  proof (intro conjI impI allI)
    assume a: "sid \<in> initializingSessions st"
    show "fst (createSession st e userIdStr phoneNumber cbs isReconnect source allowPairing)
        = Inr (map_of (activeSockets st) sid)" by (simp add: i [OF a])
    show "sockets (snd (createSession st e userIdStr phoneNumber cbs isReconnect source allowPairing))
        = sockets st" by (simp add: i [OF a] createSession_finally_def)
    show "activeSockets (snd (createSession st e userIdStr phoneNumber cbs isReconnect source
                              allowPairing)) = activeSockets st"
      by (simp add: i [OF a] createSession_finally_def)
    show "storage (snd (createSession st e userIdStr phoneNumber cbs isReconnect source allowPairing))
        = storage st" by (simp add: i [OF a] createSession_finally_def)
  next
    assume "sid \<notin> initializingSessions st \<and> sid \<in> handoffComplete st"
    then have e: "createSession st e userIdStr phoneNumber cbs isReconnect source allowPairing
        = (Inr None, createSession_finally st sid)" using ii by blast
    show "fst (createSession st e userIdStr phoneNumber cbs isReconnect source allowPairing)
        = Inr None" by (simp add: e)
    show "sockets (snd (createSession st e userIdStr phoneNumber cbs isReconnect source allowPairing))
        = sockets st" by (simp add: e createSession_finally_def)
    show "activeSockets (snd (createSession st e userIdStr phoneNumber cbs isReconnect source
                              allowPairing)) = activeSockets st"
      by (simp add: e createSession_finally_def)
    show "storage (snd (createSession st e userIdStr phoneNumber cbs isReconnect source allowPairing))
        = storage st" by (simp add: e createSession_finally_def)
  next
    assume a: "sid \<notin> initializingSessions st \<and> sid \<notin> handoffComplete st \<and>
       map_of (activeSockets st) sid = Some h \<and> handle_connected st h"
    then have e: "createSession st e userIdStr phoneNumber cbs False source allowPairing
        = (Inr (Some h), createSession_finally st sid)" using iii by blast
    show "fst (createSession st e userIdStr phoneNumber cbs False source allowPairing) = Inr (Some h)"
      by (simp add: e)
    show "sockets (snd (createSession st e userIdStr phoneNumber cbs False source allowPairing)) = sockets st"
      by (simp add: e createSession_finally_def)
    show "activeSockets (snd (createSession st e userIdStr phoneNumber cbs False source allowPairing))
        = activeSockets st"
      by (simp add: e createSession_finally_def)
    show "storage (snd (createSession st e userIdStr phoneNumber cbs False source allowPairing)) = storage st"
      by (simp add: e createSession_finally_def)
  next
    assume a: "sid \<notin> initializingSessions st \<and> sid \<notin> handoffComplete st \<and>
       map_of (activeSockets st) sid = Some h \<and> \<not> handle_connected st h"
    then have e: "createSession st e userIdStr phoneNumber cbs False source allowPairing
        = createSession ?st' e userIdStr phoneNumber cbs False source allowPairing"
      using d by blast
    show "createSession st e userIdStr phoneNumber cbs False source allowPairing
        = createSession ?st' e userIdStr phoneNumber cbs False source allowPairing" by (rule e)
    show "sock_at ?st' h = map_option (\<lambda>s. snd (teardown s)) (sock_at st h)" by (rule s)
    show "map_of (activeSockets ?st') sid = None" by (rule t(2))
    show "map_of (sessionState ?st') sid = None" by (rule t(3))
    show "storage ?st' = storage st" by (rule t(1))
    show "\<And>s. sock_at st h = Some s \<Longrightarrow>
            sock_at (snd (createSession st e userIdStr phoneNumber cbs False source allowPairing)) h
              = Some (snd (teardown s))"
      using k by (simp add: e)
    show "\<And>s. sock_at st h = Some s \<and> \<not> s_removeThrows s
               \<and> (\<forall>w. s_ws s = Some w \<longrightarrow> \<not> ws_closeThrows w) \<Longrightarrow>
            \<exists>s'. sock_at (snd (createSession st e userIdStr phoneNumber cbs False source
                                  allowPairing)) h = Some s'
               \<and> s_listeners s' = [] \<and> s_user s' = None \<and> s_connectionCallbacks s' = None
               \<and> (\<forall>w. s_ws s = Some w \<and> ws_socket w = Some 1 \<longrightarrow>
                     s_ws s' = Some (w\<lparr>ws_closed := Some (1000, ''Handoff to main server'')\<rparr>))"
      using p by (simp add: e)
  qed
qed

text \<open>
  The cases at concrete states: a creation in flight with nothing registered yet, a
  forced reconnect in flight (the previous handle is returned), the handed-off session of
  scenario A, the live session of scenario A, and a registered dead handle, which is
  torn down (its handler detached, its transport closed with code 1000) and replaced by
  the new handle 1.
\<close>

theorem createSession_guards_witness:
  "fst (createSession race_A_entered pairing_env ''42'' (JStr ''15550001'') both_callbacks
          False ''web'' True) = Inr None
   \<and> fst (createSession reconnect_entered pairing_env ''42'' (JStr ''15550001'') both_callbacks
          False ''web'' True) = Inr (Some 0)
   \<and> fst (createSession (handoffToMainServer scenario_open ''session_42'' 0 False) pairing_env
          ''42'' (JStr ''15550001'') both_callbacks False ''web'' True) = Inr None
   \<and> fst (createSession scenario_open pairing_env ''42'' (JStr ''15550001'') both_callbacks
          False ''web'' True) = Inr (Some 0)
   \<and> fst (createSession scenario_dead pairing_env ''42'' (JStr ''15550001'') both_callbacks
          False ''web'' True) = Inr (Some 1)
   \<and> map_option s_listeners (sock_at scenario_dead 0)
       = Some [\<lparr>l_sessionId = ''session_42'', l_callbacks = both_callbacks\<rparr>]
   \<and> map_option s_listeners
        (sock_at (snd (createSession scenario_dead pairing_env ''42'' (JStr ''15550001'')
                         both_callbacks False ''web'' True)) 0) = Some []
   \<and> map_option s_connectionCallbacks
        (sock_at (snd (createSession scenario_dead pairing_env ''42'' (JStr ''15550001'')
                         both_callbacks False ''web'' True)) 0) = Some None
   \<and> map_option (map_option ws_closed \<circ> s_ws)
        (sock_at (snd (createSession scenario_dead pairing_env ''42'' (JStr ''15550001'')
                         both_callbacks False ''web'' True)) 0)
       = Some (Some (Some (1000, ''Handoff to main server'')))"
proof -
  have sid: "''session_42'' = sessionId_of ''42''" by (simp add: sessionId_of_def)
  have a1: "''session_42'' \<in> initializingSessions race_A_entered" by (simp add: run)
  have a2: "map_of (activeSockets race_A_entered) ''session_42'' = None" by (simp add: run)
  have r1: "''session_42'' \<in> initializingSessions reconnect_entered" by (simp add: run)
  have r2: "map_of (activeSockets reconnect_entered) ''session_42'' = Some 0" by (simp add: run)
  have b1: "''session_42'' \<notin> initializingSessions (handoffToMainServer scenario_open ''session_42'' 0 False)"
    by (simp add: run)
  have b2: "''session_42'' \<in> handoffComplete (handoffToMainServer scenario_open ''session_42'' 0 False)"
    by (simp add: run)
  have c1: "''session_42'' \<notin> initializingSessions scenario_open" by (simp add: run)
  have c2: "''session_42'' \<notin> handoffComplete scenario_open" by (simp add: run)
  have c3: "map_of (activeSockets scenario_open) ''session_42'' = Some 0" by (simp add: run)
  have d1: "''session_42'' \<notin> initializingSessions scenario_dead" by (simp add: run)
  have d2: "''session_42'' \<notin> handoffComplete scenario_dead" by (simp add: run)
  have d3: "map_of (activeSockets scenario_dead) ''session_42'' = Some 0" by (simp add: run)
  have d4: "\<not> handle_connected scenario_dead 0" by (simp add: run)
  have d5: "fst (createSession (unregister (snd (cleanupSocketOnly scenario_dead ''session_42'' 0)) ''session_42'')
          pairing_env ''42'' (JStr ''15550001'') both_callbacks False ''web'' True) = Inr (Some 1)"
    by (simp add: run)
  have d6: "sock_at scenario_dead 0 = Some (unpaired_socket\<lparr>
        s_listeners := [\<lparr>l_sessionId = ''session_42'', l_callbacks = both_callbacks\<rparr>],
        s_connectionCallbacks := Some both_callbacks\<rparr>)"
    by (simp add: run)
  note A = createSession_guards [OF sid, of race_A_entered pairing_env "JStr ''15550001''"
      both_callbacks False "''web''" True 0]
  note R = createSession_guards [OF sid, of reconnect_entered pairing_env "JStr ''15550001''"
      both_callbacks False "''web''" True 0]
  note B = createSession_guards [OF sid, of "handoffToMainServer scenario_open ''session_42'' 0 False"
      pairing_env "JStr ''15550001''" both_callbacks False "''web''" True 0]
  note C = createSession_guards [OF sid, of scenario_open pairing_env "JStr ''15550001''"
      both_callbacks False "''web''" True 0]
  note D = createSession_guards [OF sid, of scenario_dead pairing_env "JStr ''15550001''"
      both_callbacks False "''web''" True 0]
  from A a1 have "fst (createSession race_A_entered pairing_env ''42'' (JStr ''15550001'') both_callbacks
          False ''web'' True) = Inr (map_of (activeSockets race_A_entered) ''session_42'')" by blast
  then have 1: "fst (createSession race_A_entered pairing_env ''42'' (JStr ''15550001'') both_callbacks
          False ''web'' True) = Inr None" by (simp add: a2)
  from R r1 have "fst (createSession reconnect_entered pairing_env ''42'' (JStr ''15550001'') both_callbacks
          False ''web'' True) = Inr (map_of (activeSockets reconnect_entered) ''session_42'')" by blast
  then have rr: "fst (createSession reconnect_entered pairing_env ''42'' (JStr ''15550001'') both_callbacks
          False ''web'' True) = Inr (Some 0)" by (simp add: r2)
  from B b1 b2 have 2: "fst (createSession (handoffToMainServer scenario_open ''session_42'' 0 False) pairing_env
          ''42'' (JStr ''15550001'') both_callbacks False ''web'' True) = Inr None" by blast
  from C c1 c2 c3 scenario_open_live
  have 3: "fst (createSession scenario_open pairing_env ''42'' (JStr ''15550001'') both_callbacks
          False ''web'' True) = Inr (Some 0)" by blast
  from D d1 d2 d3 d4
  have 4: "createSession scenario_dead pairing_env ''42'' (JStr ''15550001'') both_callbacks False ''web'' True
        = createSession (unregister (snd (cleanupSocketOnly scenario_dead ''session_42'' 0)) ''session_42'')
            pairing_env ''42'' (JStr ''15550001'') both_callbacks False ''web'' True" by blast
  have 5: "map_option s_listeners (sock_at scenario_dead 0)
       = Some [\<lparr>l_sessionId = ''session_42'', l_callbacks = both_callbacks\<rparr>]"
    by (simp add: d6)
  have nr: "\<not> s_removeThrows (unpaired_socket\<lparr>
        s_listeners := [\<lparr>l_sessionId = ''session_42'', l_callbacks = both_callbacks\<rparr>],
        s_connectionCallbacks := Some both_callbacks\<rparr>)"
    "\<forall>w. s_ws (unpaired_socket\<lparr>
        s_listeners := [\<lparr>l_sessionId = ''session_42'', l_callbacks = both_callbacks\<rparr>],
        s_connectionCallbacks := Some both_callbacks\<rparr>) = Some w \<longrightarrow> \<not> ws_closeThrows w"
    by (auto simp: unpaired_socket_def)
  from D d1 d2 d3 d4 d6 nr
  have "\<exists>s'. sock_at (snd (createSession scenario_dead pairing_env ''42'' (JStr ''15550001'')
                         both_callbacks False ''web'' True)) 0 = Some s'
       \<and> s_listeners s' = [] \<and> s_user s' = None \<and> s_connectionCallbacks s' = None
       \<and> (\<forall>w. s_ws (unpaired_socket\<lparr>
              s_listeners := [\<lparr>l_sessionId = ''session_42'', l_callbacks = both_callbacks\<rparr>],
              s_connectionCallbacks := Some both_callbacks\<rparr>) = Some w \<and> ws_socket w = Some 1 \<longrightarrow>
             s_ws s' = Some (w\<lparr>ws_closed := Some (1000, ''Handoff to main server'')\<rparr>))"
    by blast
  then have 6: "map_option s_listeners
        (sock_at (snd (createSession scenario_dead pairing_env ''42'' (JStr ''15550001'')
                         both_callbacks False ''web'' True)) 0) = Some []"
    "map_option s_connectionCallbacks
        (sock_at (snd (createSession scenario_dead pairing_env ''42'' (JStr ''15550001'')
                         both_callbacks False ''web'' True)) 0) = Some None"
    "map_option (map_option ws_closed \<circ> s_ws)
        (sock_at (snd (createSession scenario_dead pairing_env ''42'' (JStr ''15550001'')
                         both_callbacks False ''web'' True)) 0)
       = Some (Some (Some (1000, ''Handoff to main server'')))"
    by (auto simp: unpaired_socket_def)
  show ?thesis using 1 rr 2 3 4 d5 5 6 by simp
qed

text \<open>
  C3 as stated fails: while a first call is suspended between
  \<^verbatim>\<open>initializingSessions.add\<close> and the registration of its handle, a second call for the
  same session finds it in the initializing set and returns no handle. And a call with
  \<open>isReconnect\<close> true that finds a dead handle registers a new handle without tearing the
  old one down: the old socket keeps its handler.
\<close>

theorem in_flight_creation_returns_nothing:
  "fst (createSession_enter (new_manager new_storage) ''session_42'' False) = None
   \<and> ''session_42'' \<in> initializingSessions race_A_entered
   \<and> fst (createSession race_A_entered pairing_env ''42'' (JStr ''15550001'') both_callbacks
            False ''web'' True) = Inr None
   \<and> \<not> handle_connected scenario_dead 0
   \<and> fst (createSession scenario_dead pairing_env ''42'' (JStr ''15550001'') both_callbacks
            True ''web'' True) = Inr (Some 1)
   \<and> sock_at (snd (createSession scenario_dead pairing_env ''42'' (JStr ''15550001'')
                      both_callbacks True ''web'' True)) 0
       = sock_at scenario_dead 0
   \<and> map_option s_listeners (sock_at scenario_dead 0)
       = Some [\<lparr>l_sessionId = ''session_42'', l_callbacks = both_callbacks\<rparr>]"
  by (simp add: run)

text \<open>
  C4. The code at three interleaved calls for one session. Call A passes the guard and
  marks the session as initializing. Call B returns at the guard, and its \<^verbatim>\<open>finally\<close>
  block removes the mark while A is still in flight. Call C therefore passes the guard as
  well. Both A and C ask the provider for a connection, both register their handle (C's
  replaces A's in the registry) and both attach a connection handler; A's socket stays
  live, with its handler, outside the registry.
\<close>

theorem concurrent_create_registers_two_handles:
  "fst (createSession_enter (new_manager new_storage) ''session_42'' False) = None
   \<and> ''session_42'' \<in> initializingSessions race_A_entered
   \<and> ''session_42'' \<notin> initializingSessions race_B_done
   \<and> fst (createSession_enter race_B_done ''session_42'' False) = None
   \<and> fst (createSession_body race_C_entered pairing_env ''42'' ''session_42''
            (JStr ''15550001'') both_callbacks False ''web'' True) = Inr (Some 0)
   \<and> fst (createSession_body race_A_done pairing_env ''42'' ''session_42''
            (JStr ''15550001'') both_callbacks False ''web'' True) = Inr (Some 1)
   \<and> length (connectionRequests race_C_done) = 2
   \<and> map_of (activeSockets race_A_done) ''session_42'' = Some 0
   \<and> map_of (activeSockets race_C_done) ''session_42'' = Some 1
   \<and> map_option s_listeners (sock_at race_C_done 0)
        = Some [\<lparr>l_sessionId = ''session_42'', l_callbacks = both_callbacks\<rparr>]
   \<and> map_option s_listeners (sock_at race_C_done 1)
        = Some [\<lparr>l_sessionId = ''session_42'', l_callbacks = both_callbacks\<rparr>]
   \<and> handle_connected race_C_done 0"
  by (simp add: run)

section \<open>Close events\<close>





text \<open>
  C6, as amended. On a close event with status code 401 for a session that is not handed
  off, a session that \<^verbatim>\<open>getAllSessions\<close> returned before the event is still returned
  after it, now with \<open>isConnected\<close> false and \<open>connectionStatus\<close> disconnected: the handler
  updates the record and does not delete it. The listing of the session's credential
  blobs is empty afterwards, and with the adapter connected and responding the collection
  holds exactly the documents of the other sessions.
\<close>

theorem close_401_keeps_session_record:
  assumes nh: "sid \<notin> handoffComplete st"
  shows
  "((\<exists>x \<in> set (getAllSessions (storage st)). sd_sessionId x = JStr sid) \<longrightarrow>
      (\<exists>y \<in> set (getAllSessions (storage (connection_update st h sid cbs (ConnClose (Some 401))))).
          sd_sessionId y = JStr sid \<and> sd_isConnected y = JBool False
          \<and> sd_connectionStatus y = JStr ''disconnected''))
   \<and> getAllAuthFiles (mongoStorage (storage
         (connection_update st h sid cbs (ConnClose (Some 401))))) sid = []
   \<and> (\<forall>docs. m_isConnected (mongoStorage (storage st)) \<and> \<not> m_throws (mongoStorage (storage st))
         \<and> m_authBaileys (mongoStorage (storage st)) = Some docs
         \<longrightarrow> m_authBaileys (mongoStorage (storage
                 (connection_update st h sid cbs (ConnClose (Some 401)))))
               = Some (filter (\<lambda>a. a_sessionId a \<noteq> sid) docs))"
proof -
  let ?u = "no_fields\<lparr>sd_isConnected := JBool False, sd_connectionStatus := JStr ''disconnected''\<rparr>"
  let ?st' = "connection_update st h sid cbs (ConnClose (Some 401))"
  have sto: "storage ?st' = snd (cleanupAuthState (snd (updateSession (storage st) sid ?u)) sid)"
    by (simp add: close_401 [OF nh] notify_error_frame unregister_frame cleanup_frame)
  have keep: "\<And>x. x \<in> set (getAllSessions (storage st)) \<Longrightarrow> sd_sessionId x = JStr sid \<Longrightarrow>
      \<exists>y \<in> set (getAllSessions (storage ?st')).
          sd_sessionId y = JStr sid \<and> sd_isConnected y = JBool False
          \<and> sd_connectionStatus y = JStr ''disconnected''"
    using getAll_after_update [of ?u False "''disconnected''" _ "storage st" sid]
    by (simp add: sto cleanupAuthState_reads no_fields_def)
  have ls: "getAllAuthFiles (mongoStorage (storage ?st')) sid = []"
    by (simp add: sto cleanupAuthState_listing)
  have pg: "\<And>docs. m_isConnected (mongoStorage (storage st)) \<Longrightarrow>
         \<not> m_throws (mongoStorage (storage st)) \<Longrightarrow>
         m_authBaileys (mongoStorage (storage st)) = Some docs \<Longrightarrow>
         m_authBaileys (mongoStorage (storage ?st')) = Some (filter (\<lambda>a. a_sessionId a \<noteq> sid) docs)"
    by (simp add: sto cleanupAuthState_purges updateSession_flags)
  show ?thesis using keep ls pg by blast
qed

text \<open>
  C6 as stated fails: in scenario B \<^verbatim>\<open>session_7\<close> is still in the result of
  \<^verbatim>\<open>getAllSessions\<close> after the 401 close, as a disconnected session.
\<close>

theorem session_present_after_401:
  "JStr ''session_7'' \<in> sd_sessionId ` set (getAllSessions (storage scenario_7_closed))
   \<and> map sd_connectionStatus (getAllSessions (storage scenario_7_closed)) = [JStr ''disconnected'']"
  by (simp add: run)

text \<open>Scenario B again: the session is listed before and after the event.\<close>

theorem close_401_keeps_session_record_witness:
  "''session_7'' \<notin> handoffComplete scenario_7_open
   \<and> map sd_sessionId (getAllSessions (storage scenario_7_open)) = [JStr ''session_7'']
   \<and> (\<exists>y \<in> set (getAllSessions (storage scenario_7_closed)).
          sd_sessionId y = JStr ''session_7'' \<and> sd_isConnected y = JBool False
          \<and> sd_connectionStatus y = JStr ''disconnected'')
   \<and> getAllAuthFiles (mongoStorage (storage scenario_7_closed)) ''session_7'' = []"
proof -
  have nh: "''session_7'' \<notin> handoffComplete scenario_7_open" by (simp add: run)
  note T = close_401_keeps_session_record [OF nh, of 0 both_callbacks, folded scenario_7_closed_def]
  have p: "map sd_sessionId (getAllSessions (storage scenario_7_open)) = [JStr ''session_7'']"
    by (simp add: run)
  then have "\<exists>x \<in> set (getAllSessions (storage scenario_7_open)). sd_sessionId x = JStr ''session_7''"
    by (cases "getAllSessions (storage scenario_7_open)") auto
  with T have 1: "\<exists>y \<in> set (getAllSessions (storage scenario_7_closed)).
          sd_sessionId y = JStr ''session_7'' \<and> sd_isConnected y = JBool False
          \<and> sd_connectionStatus y = JStr ''disconnected''" by blast
  from T have 2: "getAllAuthFiles (mongoStorage (storage scenario_7_closed)) ''session_7'' = []"
    by blast
  show ?thesis using nh p 1 2 by blast
qed

text \<open>
  C7. On a close event with status code 515 for a session that is not handed off, the
  handler asks the coordinator to set \<open>isConnected\<close> false, \<open>connectionStatus\<close>
  reconnecting and \<open>detected\<close> false (any record read back shows all three), notifies the
  error callback when there is one, sets one timer of 3000 ms and leaves sockets and
  registry alone. When the timer fires in a state \<open>s\<close>: with no record or no phone number
  in the record, the callback only marks the record disconnected; otherwise it asks the
  provider for a connection with the phone number read back and \<open>allowPairing\<close> false;
  a handle returned is registered as a new socket with the callbacks and a connection
  handler attached, the storage unchanged; no handle or an exception marks the record
  disconnected and leaves the registry alone.
\<close>

theorem close_515_reconnects:
  assumes nh: "sid \<notin> handoffComplete st"
  shows
  "storage (connection_update st h sid cbs (ConnClose (Some 515)))
     = snd (updateSession (storage st) sid
         (no_fields\<lparr>sd_isConnected := JBool False,
                     sd_connectionStatus := JStr ''reconnecting'',
                     sd_detected := JBool False\<rparr>))
   \<and> (\<forall>r. getSession (storage (connection_update st h sid cbs (ConnClose (Some 515)))) sid = Some r
         \<longrightarrow> sd_isConnected r = JBool False \<and> sd_connectionStatus r = JStr ''reconnecting''
             \<and> sd_detected r = JBool False)
   \<and> notifications (connection_update st h sid cbs (ConnClose (Some 515)))
       = notifications st @ (if cb_onError cbs then [OnError sid (Some 515)] else [])
   \<and> timers (connection_update st h sid cbs (ConnClose (Some 515)))
       = timers st @ [ReconnectTimer 3000 sid cbs]
   \<and> sockets (connection_update st h sid cbs (ConnClose (Some 515))) = sockets st
   \<and> activeSockets (connection_update st h sid cbs (ConnClose (Some 515))) = activeSockets st
   \<and> (getSession (storage s) sid = None \<or>
        (\<exists>r. getSession (storage s) sid = Some r \<and> \<not> truthy (sd_phoneNumber r))
       \<longrightarrow> reconnect_after_515 s res sid cbs = mark_disconnected s sid)
   \<and> (\<forall>r. getSession (storage s) sid = Some r \<and> truthy (sd_phoneNumber r) \<longrightarrow>
         connectionRequests (reconnect_after_515 s res sid cbs)
           = connectionRequests s @ [\<lparr>rq_sessionId = sid, rq_phoneNumber = sd_phoneNumber r,
                                       rq_callbacks = cbs, rq_allowPairing = False\<rparr>]
         \<and> map_of (activeSockets (reconnect_after_515 s (ConnSocket s0) sid cbs)) sid
             = Some (length (sockets s))
         \<and> sock_at (reconnect_after_515 s (ConnSocket s0) sid cbs) (length (sockets s))
             = Some (s0\<lparr>s_connectionCallbacks := Some cbs,
                        s_listeners := s_listeners s0 @ [\<lparr>l_sessionId = sid, l_callbacks = cbs\<rparr>]\<rparr>)
         \<and> storage (reconnect_after_515 s (ConnSocket s0) sid cbs) = storage s
         \<and> (res = ConnNone \<or> res = ConnThrows \<longrightarrow>
               storage (reconnect_after_515 s res sid cbs) = storage (mark_disconnected s sid)
             \<and> activeSockets (reconnect_after_515 s res sid cbs) = activeSockets s
             \<and> sockets (reconnect_after_515 s res sid cbs) = sockets s))
   \<and> storage (mark_disconnected s sid)
       = snd (updateSession (storage s) sid
           (no_fields\<lparr>sd_isConnected := JBool False,
                       sd_connectionStatus := JStr ''disconnected''\<rparr>))
   \<and> (\<forall>r. getSession (storage (mark_disconnected s sid)) sid = Some r
         \<longrightarrow> sd_isConnected r = JBool False \<and> sd_connectionStatus r = JStr ''disconnected'')"
proof -
  let ?u = "no_fields\<lparr>sd_isConnected := JBool False, sd_connectionStatus := JStr ''reconnecting'',
                      sd_detected := JBool False\<rparr>"
  let ?d = "no_fields\<lparr>sd_isConnected := JBool False, sd_connectionStatus := JStr ''disconnected''\<rparr>"
  let ?st' = "connection_update st h sid cbs (ConnClose (Some 515))"
  have sto: "storage ?st' = snd (updateSession (storage st) sid ?u)"
    by (simp add: close_515 [OF nh] notify_error_frame)
  have rd: "\<And>r. getSession (storage ?st') sid = Some r
         \<Longrightarrow> sd_isConnected r = JBool False \<and> sd_connectionStatus r = JStr ''reconnecting''
             \<and> sd_detected r = JBool False"
    using getSession_after_update [of ?u False "''reconnecting''" "storage st" sid _ False]
    by (simp add: sto no_fields_def)
  have nt: "notifications ?st' = notifications st @ (if cb_onError cbs then [OnError sid (Some 515)] else [])"
    by (simp add: close_515 [OF nh] notify_error_frame)
  have tm: "timers ?st' = timers st @ [ReconnectTimer 3000 sid cbs]"
    by (simp add: close_515 [OF nh])
  have sk: "sockets ?st' = sockets st" "activeSockets ?st' = activeSockets st"
    by (simp_all add: close_515 [OF nh] notify_error_frame)
  have md: "storage (mark_disconnected s sid) = snd (updateSession (storage s) sid ?d)"
    by (simp add: mark_disconnected_def)
  have mr: "\<And>r. getSession (storage (mark_disconnected s sid)) sid = Some r
         \<Longrightarrow> sd_isConnected r = JBool False \<and> sd_connectionStatus r = JStr ''disconnected''"
    using getSession_after_update [of ?d False "''disconnected''" "storage s" sid]
    by (simp add: md no_fields_def)
  show ?thesis
    using sto rd nt tm sk md mr reconnect_abort [of s sid res cbs]
      reconnect_request [of s sid _ res cbs] reconnect_success [of s sid _ s0 cbs]
      reconnect_failure [of s sid _ res cbs]
    by blast
qed

text \<open>
  Scenario A continued: the 515 close marks the record reconnecting with \<open>detected\<close>
  false and adds the 3000 ms timer; when it fires and the provider returns a handle, the
  request carries the persisted phone number and \<open>allowPairing\<close> false, the new handle 1
  is registered and the storage is as the close event left it; when the provider
  returns no handle the record is marked disconnected. For the session without a phone
  number the timer callback only marks the record disconnected.
\<close>

theorem close_515_reconnects_witness:
  "''session_42'' \<notin> handoffComplete scenario_open
   \<and> map_option sd_phoneNumber (getSession (storage scenario_515) ''session_42'')
       = Some (JStr ''15550001'')
   \<and> map_option sd_connectionStatus (getSession (storage scenario_515) ''session_42'')
       = Some (JStr ''reconnecting'')
   \<and> map_option sd_detected (getSession (storage scenario_515) ''session_42'')
       = Some (JBool False)
   \<and> timers scenario_515 = [HandoffTimer 15000 ''session_42'' 0,
                              ReconnectTimer 3000 ''session_42'' both_callbacks]
   \<and> last (connectionRequests (reconnect_after_515 scenario_515 (ConnSocket paired_socket)
              ''session_42'' both_callbacks))
       = \<lparr>rq_sessionId = ''session_42'', rq_phoneNumber = JStr ''15550001'',
           rq_callbacks = both_callbacks, rq_allowPairing = False\<rparr>
   \<and> map_of (activeSockets (reconnect_after_515 scenario_515 (ConnSocket paired_socket)
              ''session_42'' both_callbacks)) ''session_42'' = Some 1
   \<and> storage (reconnect_after_515 scenario_515 (ConnSocket paired_socket)
              ''session_42'' both_callbacks) = storage scenario_515
   \<and> storage (reconnect_after_515 scenario_515 ConnNone ''session_42'' both_callbacks)
       = storage (mark_disconnected scenario_515 ''session_42'')
   \<and> map_option sd_connectionStatus
        (getSession (storage (mark_disconnected scenario_515 ''session_42'')) ''session_42'')
       = Some (JStr ''disconnected'')
   \<and> map_option sd_phoneNumber (getSession (storage scenario_nophone_515) ''session_43'')
       = Some JNull
   \<and> reconnect_after_515 scenario_nophone_515 (ConnSocket paired_socket) ''session_43''
        both_callbacks = mark_disconnected scenario_nophone_515 ''session_43''"
proof -
  have nh: "''session_42'' \<notin> handoffComplete scenario_open" by (simp add: run)
  note T = close_515_reconnects [OF nh, of 0 both_callbacks scenario_515 ConnNone paired_socket,
      folded scenario_515_def]
  obtain r where r: "getSession (storage scenario_515) ''session_42'' = Some r"
      and ph: "sd_phoneNumber r = JStr ''15550001''"
    by (simp add: run)
  have tr: "truthy (sd_phoneNumber r)" by (simp add: ph)
  have t0: "timers scenario_open = [HandoffTimer 15000 ''session_42'' 0]" by (simp add: run)
  have l0: "length (sockets scenario_515) = 1" by (simp add: run)
  note U = close_515_reconnects [OF nh, of 0 both_callbacks scenario_515
      "ConnSocket paired_socket" paired_socket, folded scenario_515_def]
  from T r have 1: "sd_connectionStatus r = JStr ''reconnecting''" "sd_detected r = JBool False"
    by blast+
  from T have "timers scenario_515 = timers scenario_open @ [ReconnectTimer 3000 ''session_42'' both_callbacks]"
    by blast
  then have 2: "timers scenario_515 = [HandoffTimer 15000 ''session_42'' 0,
                              ReconnectTimer 3000 ''session_42'' both_callbacks]"
    by (simp add: t0)
  from U r tr have "connectionRequests (reconnect_after_515 scenario_515 (ConnSocket paired_socket)
              ''session_42'' both_callbacks)
       = connectionRequests scenario_515 @ [\<lparr>rq_sessionId = ''session_42'', rq_phoneNumber = sd_phoneNumber r,
           rq_callbacks = both_callbacks, rq_allowPairing = False\<rparr>]" by blast
  then have 3: "last (connectionRequests (reconnect_after_515 scenario_515 (ConnSocket paired_socket)
              ''session_42'' both_callbacks))
       = \<lparr>rq_sessionId = ''session_42'', rq_phoneNumber = JStr ''15550001'',
           rq_callbacks = both_callbacks, rq_allowPairing = False\<rparr>"
    by (simp add: ph)
  from U r tr have "map_of (activeSockets (reconnect_after_515 scenario_515 (ConnSocket paired_socket)
              ''session_42'' both_callbacks)) ''session_42'' = Some (length (sockets scenario_515))"
    by blast
  then have 4: "map_of (activeSockets (reconnect_after_515 scenario_515 (ConnSocket paired_socket)
              ''session_42'' both_callbacks)) ''session_42'' = Some 1"
    by (simp add: l0)
  from U r tr have 5: "storage (reconnect_after_515 scenario_515 (ConnSocket paired_socket)
              ''session_42'' both_callbacks) = storage scenario_515" by blast
  from T r tr have 6: "storage (reconnect_after_515 scenario_515 ConnNone ''session_42'' both_callbacks)
       = storage (mark_disconnected scenario_515 ''session_42'')" by blast
  have g: "getSession (storage (mark_disconnected scenario_515 ''session_42'')) ''session_42'' \<noteq> None"
    by (simp add: run)
  with T have 7: "map_option sd_connectionStatus
        (getSession (storage (mark_disconnected scenario_515 ''session_42'')) ''session_42'')
       = Some (JStr ''disconnected'')" by auto
  have nh': "''session_43'' \<notin> handoffComplete (new_manager new_storage)" by (simp add: run)
  obtain r' where r': "getSession (storage scenario_nophone_515) ''session_43'' = Some r'"
      and ph': "sd_phoneNumber r' = JNull"
    by (simp add: run)
  have nt: "\<not> truthy (sd_phoneNumber r')" by (simp add: ph')
  note V = close_515_reconnects [OF nh', of 0 both_callbacks scenario_nophone_515
      "ConnSocket paired_socket" paired_socket]
  from V r' nt have 8: "reconnect_after_515 scenario_nophone_515 (ConnSocket paired_socket) ''session_43''
        both_callbacks = mark_disconnected scenario_nophone_515 ''session_43''" by blast
  show ?thesis using nh r ph 1 2 3 4 5 6 7 r' ph' 8 by simp
qed

section \<open>Properties of the storage coordinator\<close>

text \<open>
  C8. \<^verbatim>\<open>saveSession\<close> and \<^verbatim>\<open>updateSession\<close> of the coordinator attempt the write on
  every connected backend (each backend's state afterwards is the adapter's result, a
  backend that is not connected is left alone), and the result is the logical OR of the
  attempted adapters' results: success exactly when at least one connected backend
  accepts the write, failure exactly when every backend rejects it or is not connected.
\<close>

theorem coordinator_write_logical_or:
  "fst (saveSession st sid d) =
     ((m_isConnected (mongoStorage st) \<and>
         fst (mongo_saveSession (clock st) (mongoStorage st) sid d)) \<or>
      (p_isConnected (postgresStorage st) \<and>
         fst (pg_saveSession (clock st) (postgresStorage st) sid d)))
   \<and> mongoStorage (snd (saveSession st sid d)) =
       (if m_isConnected (mongoStorage st)
        then snd (mongo_saveSession (clock st) (mongoStorage st) sid d) else mongoStorage st)
   \<and> postgresStorage (snd (saveSession st sid d)) =
       (if p_isConnected (postgresStorage st)
        then snd (pg_saveSession (clock st) (postgresStorage st) sid d) else postgresStorage st)
   \<and> fst (updateSession st sid u) =
     ((m_isConnected (mongoStorage st) \<and>
         fst (mongo_updateSession (clock st) (mongoStorage st) sid
                (u\<lparr>sd_updatedAt := JDate (clock st)\<rparr>))) \<or>
      (p_isConnected (postgresStorage st) \<and>
         fst (pg_updateSession (clock st) (postgresStorage st) sid
                (u\<lparr>sd_updatedAt := JDate (clock st)\<rparr>))))
   \<and> mongoStorage (snd (updateSession st sid u)) =
       (if m_isConnected (mongoStorage st)
        then snd (mongo_updateSession (clock st) (mongoStorage st) sid
                    (u\<lparr>sd_updatedAt := JDate (clock st)\<rparr>))
        else mongoStorage st)
   \<and> postgresStorage (snd (updateSession st sid u)) =
       (if p_isConnected (postgresStorage st)
        then snd (pg_updateSession (clock st) (postgresStorage st) sid
                    (u\<lparr>sd_updatedAt := JDate (clock st)\<rparr>))
        else postgresStorage st)"
  by (simp add: saveSession_def updateSession_def Let_def split: prod.splits)

section \<open>Credential blobs\<close>

text \<open>
  C9, as amended. A successful write of a non-empty payload under a file name followed by
  a read under the same name returns that payload. A write under another name leaves the
  read unchanged whenever the two names have different sanitized keys. The sanitization
  leaves a name without \<^verbatim>\<open>:\<close>, \<^verbatim>\<open>/\<close> and \<^verbatim>\<open>\\<close> as it is, so two distinct names free of
  these characters have distinct keys; it is not injective on all names.
\<close>

theorem auth_read_after_write:
  "(fst (writeAuthData now m sid f p) \<and> p \<noteq> [] \<longrightarrow>
      readAuthData (snd (writeAuthData now m sid f p)) sid f = Some p)
   \<and> (sanitize g \<noteq> sanitize f \<longrightarrow>
      readAuthData (snd (writeAuthData now m sid g q)) sid f = readAuthData m sid f)
   \<and> (CHR '':'' \<notin> set f \<and> CHR ''/'' \<notin> set f \<and> CHR 0x5C \<notin> set f \<longrightarrow> sanitize f = f)
   \<and> (CHR '':'' \<notin> set f \<and> CHR ''/'' \<notin> set f \<and> CHR 0x5C \<notin> set f \<and>
       CHR '':'' \<notin> set g \<and> CHR ''/'' \<notin> set g \<and> CHR 0x5C \<notin> set g \<and> f \<noteq> g
      \<longrightarrow> sanitize f \<noteq> sanitize g)"
proof (intro conjI impI)
  assume "fst (writeAuthData now m sid f p) \<and> p \<noteq> []"
  then show "readAuthData (snd (writeAuthData now m sid f p)) sid f = Some p"
    using read_after_write by blast
next
  assume "sanitize g \<noteq> sanitize f"
  then show "readAuthData (snd (writeAuthData now m sid g q)) sid f = readAuthData m sid f"
    using read_other_write by blast
next
  assume "CHR '':'' \<notin> set f \<and> CHR ''/'' \<notin> set f \<and> CHR 0x5C \<notin> set f"
  then show "sanitize f = f" using sanitize_id by blast
next
  assume "CHR '':'' \<notin> set f \<and> CHR ''/'' \<notin> set f \<and> CHR 0x5C \<notin> set f \<and>
       CHR '':'' \<notin> set g \<and> CHR ''/'' \<notin> set g \<and> CHR 0x5C \<notin> set g \<and> f \<noteq> g"
  then show "sanitize f \<noteq> sanitize g" using sanitize_id [of f] sanitize_id [of g] by auto
qed

text \<open>
  C9 as stated fails: two distinct names have the same sanitized key, and a write under
  the second replaces what a read under the first returns.
\<close>

theorem sanitize_collision:
  "''sender-key-a::b'' \<noteq> ''sender-key-a__b''
   \<and> sanitize ''sender-key-a::b'' = sanitize ''sender-key-a__b''
   \<and> readAuthData
        (snd (writeAuthData 1001
           (snd (writeAuthData 1000 (mongoStorage new_storage) ''session_7''
                   ''sender-key-a::b'' ''first''))
           ''session_7'' ''sender-key-a__b'' ''second''))
        ''session_7'' ''sender-key-a::b'' = Some ''second''"
  by (simp add: run)

text \<open>
  In the store of scenario B a write under \<^verbatim>\<open>creds.json\<close> is read back and leaves the
  blob under \<^verbatim>\<open>pre-key-1.json\<close> as it was.
\<close>

theorem auth_read_after_write_witness:
  "readAuthData
     (snd (writeAuthData 1000 (mongoStorage creds_storage) ''session_7'' ''creds.json'' ''{new}''))
     ''session_7'' ''creds.json'' = Some ''{new}''
   \<and> readAuthData
     (snd (writeAuthData 1000 (mongoStorage creds_storage) ''session_7'' ''creds.json'' ''{new}''))
     ''session_7'' ''pre-key-1.json'' = Some ''{keyPair}''
   \<and> sanitize ''creds.json'' = ''creds.json''
   \<and> sanitize ''creds.json'' \<noteq> sanitize ''pre-key-1.json''"
proof -
  have w: "fst (writeAuthData 1000 (mongoStorage creds_storage) ''session_7'' ''creds.json'' ''{new}'')"
    by (simp add: run)
  have c: "CHR '':'' \<notin> set ''creds.json'' \<and> CHR ''/'' \<notin> set ''creds.json''
      \<and> CHR 0x5C \<notin> set ''creds.json''" by simp
  have k: "CHR '':'' \<notin> set ''pre-key-1.json'' \<and> CHR ''/'' \<notin> set ''pre-key-1.json''
      \<and> CHR 0x5C \<notin> set ''pre-key-1.json''" by simp
  have ne: "''creds.json'' \<noteq> ''pre-key-1.json''" by simp
  have r0: "readAuthData (mongoStorage creds_storage) ''session_7'' ''pre-key-1.json'' = Some ''{keyPair}''"
    by (simp add: run)
  note T = auth_read_after_write [where now = 1000 and m = "mongoStorage creds_storage"
      and sid = "''session_7''" and f = "''creds.json''" and p = "''{new}''"
      and g = "''pre-key-1.json''"]
  note U = auth_read_after_write [where now = 1000 and m = "mongoStorage creds_storage"
      and sid = "''session_7''" and f = "''pre-key-1.json''" and g = "''creds.json''"
      and q = "''{new}''"]
  from T w have 1: "readAuthData
     (snd (writeAuthData 1000 (mongoStorage creds_storage) ''session_7'' ''creds.json'' ''{new}''))
     ''session_7'' ''creds.json'' = Some ''{new}''" by simp
  from T c have 3: "sanitize ''creds.json'' = ''creds.json''" by blast
  from T c k ne have 4: "sanitize ''creds.json'' \<noteq> sanitize ''pre-key-1.json''" by blast
  from U 4 have "readAuthData
     (snd (writeAuthData 1000 (mongoStorage creds_storage) ''session_7'' ''creds.json'' ''{new}''))
     ''session_7'' ''pre-key-1.json'' = readAuthData (mongoStorage creds_storage) ''session_7'' ''pre-key-1.json''"
    by blast
  then have 2: "readAuthData
     (snd (writeAuthData 1000 (mongoStorage creds_storage) ''session_7'' ''creds.json'' ''{new}''))
     ''session_7'' ''pre-key-1.json'' = Some ''{keyPair}''" by (simp add: r0)
  show ?thesis using 1 2 3 4 by blast
qed

text \<open>
  C10. The \<open>detected\<close> flag of a record formatted by the coordinator is true unless the
  value it is given is exactly the boolean false. The flag \<^verbatim>\<open>getSession\<close> returns is
  that of the document or row it reads (the first MongoDB document of the session, else
  the first PostgreSQL row), true unless the stored value is exactly false. Every record
  of \<^verbatim>\<open>getAllSessions\<close> is the formatted view of one stored document or row and carries
  the flag of that very document or row; the listing served by PostgreSQL (or by MongoDB
  when PostgreSQL is not connected) gives, record by record, the key and the flag of the
  stored rows in the order of the query. An absent field, null or any other value reads
  as true. A successful \<^verbatim>\<open>saveSession\<close> of the MongoDB adapter stores true unless the
  input holds exactly false, so true when the input omits the field.
\<close>

theorem detected_true_unless_false:
  "sd_detected (formatSessionData x) = JBool (sd_detected x \<noteq> JBool False)
   \<and> map_option sd_detected (getSession sto sid) =
       (case (if m_isConnected (mongoStorage sto) \<and> \<not> m_throws (mongoStorage sto)
              then find (\<lambda>d. d_sessionId d = sid) (m_sessions (mongoStorage sto)) else None) of
          Some d \<Rightarrow> Some (JBool (d_detected d \<noteq> JBool False))
        | None \<Rightarrow>
            (if p_isConnected (postgresStorage sto) \<and> \<not> p_throws (postgresStorage sto)
             then map_option (\<lambda>row. JBool (r_detected row \<noteq> JBool False))
                    (find (\<lambda>x. r_session_id x = Some sid) (p_users (postgresStorage sto)))
             else None))
   \<and> (getSession sto sid = Some r \<longrightarrow>
        (\<exists>d. find (\<lambda>d. d_sessionId d = sid) (m_sessions (mongoStorage sto)) = Some d
            \<and> r = formatSessionData (mongo_view d) \<and> sd_sessionId r = JStr (d_sessionId d)
            \<and> sd_detected r = JBool (d_detected d \<noteq> JBool False))
      \<or> (\<exists>row. find (\<lambda>x. r_session_id x = Some sid) (p_users (postgresStorage sto)) = Some row
            \<and> r = formatSessionData (pg_view row) \<and> sd_telegramId r = JNum (r_telegram_id row)
            \<and> sd_detected r = JBool (r_detected row \<noteq> JBool False)))
   \<and> (r \<in> set (getAllSessions sto) \<longrightarrow>
        (\<exists>d \<in> set (m_sessions (mongoStorage sto)).
            r = formatSessionData (mongo_view d) \<and> sd_sessionId r = JStr (d_sessionId d)
            \<and> sd_detected r = JBool (d_detected d \<noteq> JBool False))
      \<or> (\<exists>row \<in> set (p_users (postgresStorage sto)).
            r = formatSessionData (pg_view row) \<and> sd_telegramId r = JNum (r_telegram_id row)
            \<and> sd_detected r = JBool (r_detected row \<noteq> JBool False)))
   \<and> (p_isConnected (postgresStorage sto) \<and> \<not> p_throws (postgresStorage sto) \<longrightarrow>
        map (\<lambda>r. (sd_telegramId r, sd_detected r)) (getAllSessions sto)
          = map (\<lambda>row. (JNum (r_telegram_id row), JBool (r_detected row \<noteq> JBool False)))
              (sort_key (\<lambda>r. - int (r_updated_at r))
                 (filter (\<lambda>r. r_session_id r \<noteq> None) (p_users (postgresStorage sto)))))
   \<and> (\<not> p_isConnected (postgresStorage sto) \<and> m_isConnected (mongoStorage sto)
       \<and> \<not> m_throws (mongoStorage sto) \<longrightarrow>
        map (\<lambda>r. (sd_sessionId r, sd_detected r)) (getAllSessions sto)
          = map (\<lambda>d. (JStr (d_sessionId d), JBool (d_detected d \<noteq> JBool False)))
              (sort_key (\<lambda>d. - int (d_updatedAt d)) (m_sessions (mongoStorage sto))))
   \<and> (fst (mongo_saveSession now m sid x) \<longrightarrow>
        map_option d_detected (find (\<lambda>d. d_sessionId d = sid)
            (m_sessions (snd (mongo_saveSession now m sid x))))
          = Some (JBool (sd_detected x \<noteq> JBool False)))"
proof -
  have a: "map_option sd_detected (getSession sto sid) =
       (case (if m_isConnected (mongoStorage sto) \<and> \<not> m_throws (mongoStorage sto)
              then find (\<lambda>d. d_sessionId d = sid) (m_sessions (mongoStorage sto)) else None) of
          Some d \<Rightarrow> Some (JBool (d_detected d \<noteq> JBool False))
        | None \<Rightarrow>
            (if p_isConnected (postgresStorage sto) \<and> \<not> p_throws (postgresStorage sto)
             then map_option (\<lambda>row. JBool (r_detected row \<noteq> JBool False))
                    (find (\<lambda>x. r_session_id x = Some sid) (p_users (postgresStorage sto)))
             else None))"
    by (cases "find (\<lambda>d. d_sessionId d = sid) (m_sessions (mongoStorage sto))";
        cases "find (\<lambda>x. r_session_id x = Some sid) (p_users (postgresStorage sto))")
       (simp_all add: getSession_stored view_detected)
  have b: "getSession sto sid = Some r \<Longrightarrow>
        (\<exists>d. find (\<lambda>d. d_sessionId d = sid) (m_sessions (mongoStorage sto)) = Some d
            \<and> r = formatSessionData (mongo_view d) \<and> sd_sessionId r = JStr (d_sessionId d)
            \<and> sd_detected r = JBool (d_detected d \<noteq> JBool False))
      \<or> (\<exists>row. find (\<lambda>x. r_session_id x = Some sid) (p_users (postgresStorage sto)) = Some row
            \<and> r = formatSessionData (pg_view row) \<and> sd_telegramId r = JNum (r_telegram_id row)
            \<and> sd_detected r = JBool (r_detected row \<noteq> JBool False))"
    by (auto simp: getSession_stored view_detected view_sessionId view_telegramId
          split: option.splits if_splits)
  have c: "r \<in> set (getAllSessions sto) \<Longrightarrow>
        (\<exists>d \<in> set (m_sessions (mongoStorage sto)).
            r = formatSessionData (mongo_view d) \<and> sd_sessionId r = JStr (d_sessionId d)
            \<and> sd_detected r = JBool (d_detected d \<noteq> JBool False))
      \<or> (\<exists>row \<in> set (p_users (postgresStorage sto)).
            r = formatSessionData (pg_view row) \<and> sd_telegramId r = JNum (r_telegram_id row)
            \<and> sd_detected r = JBool (r_detected row \<noteq> JBool False))"
    using getAllSessions_source [of r sto] view_detected view_sessionId view_telegramId by blast
  have d: "p_isConnected (postgresStorage sto) \<Longrightarrow> \<not> p_throws (postgresStorage sto) \<Longrightarrow>
        map (\<lambda>r. (sd_telegramId r, sd_detected r)) (getAllSessions sto)
          = map (\<lambda>row. (JNum (r_telegram_id row), JBool (r_detected row \<noteq> JBool False)))
              (sort_key (\<lambda>r. - int (r_updated_at r))
                 (filter (\<lambda>r. r_session_id r \<noteq> None) (p_users (postgresStorage sto))))"
    by (simp add: getAllSessions_stored view_detected view_telegramId comp_def)
  have e: "\<not> p_isConnected (postgresStorage sto) \<Longrightarrow> m_isConnected (mongoStorage sto) \<Longrightarrow>
        \<not> m_throws (mongoStorage sto) \<Longrightarrow>
        map (\<lambda>r. (sd_sessionId r, sd_detected r)) (getAllSessions sto)
          = map (\<lambda>d. (JStr (d_sessionId d), JBool (d_detected d \<noteq> JBool False)))
              (sort_key (\<lambda>d. - int (d_updatedAt d)) (m_sessions (mongoStorage sto)))"
    by (simp add: getAllSessions_stored view_detected view_sessionId comp_def)
  show ?thesis
    using a format_detected
    by (intro conjI impI) (use b c d e mongo_save_detected in blast)+
qed

text \<open>
  Documents with no \<open>detected\<close> field and with null read back as detected, the one
  holding false as undetected, through \<^verbatim>\<open>getSession\<close> and \<^verbatim>\<open>getAllSessions\<close> alike; a
  save that omits the field stores true. Served by PostgreSQL, the listing gives each
  user's record the flag of its own row (NULL reads as detected, false as undetected,
  most recently updated first), and \<^verbatim>\<open>getSession\<close> the flag of the row it reads.
\<close>

theorem detected_true_unless_false_witness:
  "map_option sd_detected (getSession legacy_storage ''session_9'') = Some (JBool True)
   \<and> map_option sd_detected (getSession legacy_storage ''session_10'') = Some (JBool True)
   \<and> map_option sd_detected (getSession legacy_storage ''session_11'') = Some (JBool False)
   \<and> map (\<lambda>r. (sd_sessionId r, sd_detected r)) (getAllSessions legacy_storage)
       = [(JStr ''session_9'', JBool True), (JStr ''session_10'', JBool True),
          (JStr ''session_11'', JBool False)]
   \<and> map_option d_detected (find (\<lambda>d. d_sessionId d = ''session_12'')
        (m_sessions (snd (mongo_saveSession 1000 (mongoStorage legacy_storage) ''session_12''
            (no_fields\<lparr>sd_userId := JStr ''12''\<rparr>))))) = Some (JBool True)
   \<and> map (\<lambda>r. (sd_telegramId r, sd_detected r)) (getAllSessions pg_example_storage)
       = [(JNum 23, JBool True), (JNum 22, JBool False), (JNum 21, JBool True)]
   \<and> map_option sd_detected (getSession pg_example_storage ''session_21'') = Some (JBool True)
   \<and> map_option sd_detected (getSession pg_example_storage ''session_23'') = Some (JBool True)"
proof -
  have s: "fst (mongo_saveSession 1000 (mongoStorage legacy_storage) ''session_12''
            (no_fields\<lparr>sd_userId := JStr ''12''\<rparr>))"
    by (simp add: run)
  have u: "sd_detected (no_fields\<lparr>sd_userId := JStr ''12''\<rparr>) = JUndefined"
    by (simp add: no_fields_def)
  note L9 = detected_true_unless_false [where sto = legacy_storage and sid = "''session_9''"]
  note L10 = detected_true_unless_false [where sto = legacy_storage and sid = "''session_10''"]
  note L11 = detected_true_unless_false [where sto = legacy_storage and sid = "''session_11''"]
  note P21 = detected_true_unless_false [where sto = pg_example_storage and sid = "''session_21''"]
  note P23 = detected_true_unless_false [where sto = pg_example_storage and sid = "''session_23''"]
  from L9 have "map_option sd_detected (getSession legacy_storage ''session_9'') =
       (case (if m_isConnected (mongoStorage legacy_storage) \<and> \<not> m_throws (mongoStorage legacy_storage)
              then find (\<lambda>d. d_sessionId d = ''session_9'') (m_sessions (mongoStorage legacy_storage))
              else None) of
          Some d \<Rightarrow> Some (JBool (d_detected d \<noteq> JBool False))
        | None \<Rightarrow>
            (if p_isConnected (postgresStorage legacy_storage) \<and> \<not> p_throws (postgresStorage legacy_storage)
             then map_option (\<lambda>row. JBool (r_detected row \<noteq> JBool False))
                    (find (\<lambda>x. r_session_id x = Some ''session_9'') (p_users (postgresStorage legacy_storage)))
             else None))" by blast
  then have 1: "map_option sd_detected (getSession legacy_storage ''session_9'') = Some (JBool True)"
    by (simp add: legacy_storage_def legacy_doc_def)
  from L10 have "map_option sd_detected (getSession legacy_storage ''session_10'') =
       (case (if m_isConnected (mongoStorage legacy_storage) \<and> \<not> m_throws (mongoStorage legacy_storage)
              then find (\<lambda>d. d_sessionId d = ''session_10'') (m_sessions (mongoStorage legacy_storage))
              else None) of
          Some d \<Rightarrow> Some (JBool (d_detected d \<noteq> JBool False))
        | None \<Rightarrow>
            (if p_isConnected (postgresStorage legacy_storage) \<and> \<not> p_throws (postgresStorage legacy_storage)
             then map_option (\<lambda>row. JBool (r_detected row \<noteq> JBool False))
                    (find (\<lambda>x. r_session_id x = Some ''session_10'') (p_users (postgresStorage legacy_storage)))
             else None))" by blast
  then have 2: "map_option sd_detected (getSession legacy_storage ''session_10'') = Some (JBool True)"
    by (simp add: legacy_storage_def legacy_doc_def)
  from L11 have "map_option sd_detected (getSession legacy_storage ''session_11'') =
       (case (if m_isConnected (mongoStorage legacy_storage) \<and> \<not> m_throws (mongoStorage legacy_storage)
              then find (\<lambda>d. d_sessionId d = ''session_11'') (m_sessions (mongoStorage legacy_storage))
              else None) of
          Some d \<Rightarrow> Some (JBool (d_detected d \<noteq> JBool False))
        | None \<Rightarrow>
            (if p_isConnected (postgresStorage legacy_storage) \<and> \<not> p_throws (postgresStorage legacy_storage)
             then map_option (\<lambda>row. JBool (r_detected row \<noteq> JBool False))
                    (find (\<lambda>x. r_session_id x = Some ''session_11'') (p_users (postgresStorage legacy_storage)))
             else None))" by blast
  then have 3: "map_option sd_detected (getSession legacy_storage ''session_11'') = Some (JBool False)"
    by (simp add: legacy_storage_def legacy_doc_def)
  have lc: "\<not> p_isConnected (postgresStorage legacy_storage) \<and> m_isConnected (mongoStorage legacy_storage)
       \<and> \<not> m_throws (mongoStorage legacy_storage)" by (simp add: legacy_storage_def)
  with L9 have "map (\<lambda>r. (sd_sessionId r, sd_detected r)) (getAllSessions legacy_storage)
          = map (\<lambda>d. (JStr (d_sessionId d), JBool (d_detected d \<noteq> JBool False)))
              (sort_key (\<lambda>d. - int (d_updatedAt d)) (m_sessions (mongoStorage legacy_storage)))"
    by blast
  then have 4: "map (\<lambda>r. (sd_sessionId r, sd_detected r)) (getAllSessions legacy_storage)
       = [(JStr ''session_9'', JBool True), (JStr ''session_10'', JBool True),
          (JStr ''session_11'', JBool False)]"
    by (simp add: legacy_storage_def legacy_doc_def)
  from detected_true_unless_false [where x = "no_fields\<lparr>sd_userId := JStr ''12''\<rparr>" and now = 1000
      and m = "mongoStorage legacy_storage" and sid = "''session_12''"] s
  have 5: "map_option d_detected (find (\<lambda>d. d_sessionId d = ''session_12'')
        (m_sessions (snd (mongo_saveSession 1000 (mongoStorage legacy_storage) ''session_12''
            (no_fields\<lparr>sd_userId := JStr ''12''\<rparr>))))) = Some (JBool True)"
    by (simp add: u)
  have pc: "p_isConnected (postgresStorage pg_example_storage)
       \<and> \<not> p_throws (postgresStorage pg_example_storage)" by (simp add: pg_example_storage_def)
  with P21 have "map (\<lambda>r. (sd_telegramId r, sd_detected r)) (getAllSessions pg_example_storage)
          = map (\<lambda>row. (JNum (r_telegram_id row), JBool (r_detected row \<noteq> JBool False)))
              (sort_key (\<lambda>r. - int (r_updated_at r))
                 (filter (\<lambda>r. r_session_id r \<noteq> None) (p_users (postgresStorage pg_example_storage))))"
    by blast
  then have 6: "map (\<lambda>r. (sd_telegramId r, sd_detected r)) (getAllSessions pg_example_storage)
       = [(JNum 23, JBool True), (JNum 22, JBool False), (JNum 21, JBool True)]"
    by (simp add: pg_example_storage_def pg_example_row_def)
  from P21 have "map_option sd_detected (getSession pg_example_storage ''session_21'') =
       (case (if m_isConnected (mongoStorage pg_example_storage) \<and> \<not> m_throws (mongoStorage pg_example_storage)
              then find (\<lambda>d. d_sessionId d = ''session_21'') (m_sessions (mongoStorage pg_example_storage))
              else None) of
          Some d \<Rightarrow> Some (JBool (d_detected d \<noteq> JBool False))
        | None \<Rightarrow>
            (if p_isConnected (postgresStorage pg_example_storage) \<and> \<not> p_throws (postgresStorage pg_example_storage)
             then map_option (\<lambda>row. JBool (r_detected row \<noteq> JBool False))
                    (find (\<lambda>x. r_session_id x = Some ''session_21'') (p_users (postgresStorage pg_example_storage)))
             else None))" by blast
  then have 7: "map_option sd_detected (getSession pg_example_storage ''session_21'') = Some (JBool True)"
    by (simp add: pg_example_storage_def pg_example_row_def)
  from P23 have "map_option sd_detected (getSession pg_example_storage ''session_23'') =
       (case (if m_isConnected (mongoStorage pg_example_storage) \<and> \<not> m_throws (mongoStorage pg_example_storage)
              then find (\<lambda>d. d_sessionId d = ''session_23'') (m_sessions (mongoStorage pg_example_storage))
              else None) of
          Some d \<Rightarrow> Some (JBool (d_detected d \<noteq> JBool False))
        | None \<Rightarrow>
            (if p_isConnected (postgresStorage pg_example_storage) \<and> \<not> p_throws (postgresStorage pg_example_storage)
             then map_option (\<lambda>row. JBool (r_detected row \<noteq> JBool False))
                    (find (\<lambda>x. r_session_id x = Some ''session_23'') (p_users (postgresStorage pg_example_storage)))
             else None))" by blast
  then have 8: "map_option sd_detected (getSession pg_example_storage ''session_23'') = Some (JBool True)"
    by (simp add: pg_example_storage_def pg_example_row_def)
  show ?thesis using 1 2 3 4 5 6 7 8 by blast
qed

end
